theory Spec2Isabelle
  imports Main "HOL-Library.Word" "HOL-Library.Sublist"
begin

section \<open>Values that cross the boundary\<close>

text \<open>
  The bridge of \<^verbatim>\<open>src/cryptobox-jni.c\<close> sits between a Java runtime and the
  native engine. Both are external: the model keeps their observable state in a
  \<open>world\<close> and takes their answers from an \<open>env\<close> of oracles, so that every
  theorem holds for every behaviour of the runtime and of the engine.
\<close>

type_synonym byte = "8 word"
type_synonym jint = "32 word"
type_synonym jlong = "64 word"
type_synonym uint16_t = "16 word"
type_synonym uint32_t = "32 word"

text \<open>
  Modelled from the spec: the result codes of \<^verbatim>\<open>cbox.h\<close>, which is not part of the
  sources. The bridge only compares a code with \<^verbatim>\<open>CBOX_SUCCESS\<close> and hands it on as
  an integer; the spec tells the success code from all others and nothing more.
\<close>

type_synonym CBoxResult = "32 word"

definition CBOX_SUCCESS :: CBoxResult where
  "CBOX_SUCCESS = 0"

text \<open>A native pointer that the bridge reads through: null, or the address of a value.\<close>

datatype 'a ptr = NULL | Ptr 'a

text \<open>
  Modelled from the spec: \<^verbatim>\<open>CBoxVec\<close>, the engine's byte buffer, declared in
  \<^verbatim>\<open>cbox.h\<close> (not part of the sources): a pointer and length abstraction. Its address
  names the allocation.
\<close>

record CBoxVec =
  vec_addr :: nat
  vec_bytes :: "byte list"

text \<open>A \<^verbatim>\<open>jobject\<close>: null, or an index into the managed heap.\<close>

datatype jref = JNull | JRef nat

text \<open>
  Modelled from the spec: the managed objects. The Java classes are not part of the
  sources; an instance records the arguments its constructor was given, in the order
  of the constructor signatures that \<^verbatim>\<open>JNI_OnLoad\<close> looks up.
\<close>

datatype jobj =
    ByteArray "byte list"
  | ObjectArray "jref list"
  | StringObj string
  | CryptoException CBoxResult
  | CryptoSession jlong jref
  | SessionMessage jref jref
  | PreKey jint jref

datatype pending_exc = NoException | JvmException | Thrown jref

datatype release_mode = JNI_COPY_BACK | JNI_COMMIT | JNI_ABORT

datatype event =
    VecFree nat
  | GetString jref
  | ReleaseString jref
  | GetBytes jref
  | ReleaseBytes jref release_mode
  | CallNewPrekey jlong jint
  | CallFingerprintLocal jlong
  | CallFingerprintRemote jlong
  | CallInitFromPrekey jlong "string ptr" "byte list ptr" uint16_t
  | CallInitFromMessage jlong "string ptr" "byte list ptr" uint32_t
  | CallEncrypt jlong "byte list ptr" uint32_t
  | CallDecrypt jlong "byte list ptr" uint32_t

text \<open>
  The observable state: the managed heap, the runtime's pending exception, and the
  log of native calls and of acquisitions and releases, oldest first.
\<close>

record world =
  heap :: "jobj list"
  pending :: pending_exc
  trace :: "event list"

text \<open>
  How a runtime call that can fail ends: it succeeds, it fails with an exception left
  pending (and a null result), or it hands back null with nothing pending.
\<close>

datatype outcome = Succeeds | Throws | ReturnsNull

datatype fault = NullDeref | BadRef

text \<open>
  The oracles. Each sees the world at the moment of the call. The engine's calls
  answer with the result code and the values they leave in their out-parameters; the
  ones that are handed a borrowed input buffer also answer with the bytes that
  buffer holds afterwards.
\<close>

record env =
  jvm_new :: "world \<Rightarrow> jobj \<Rightarrow> outcome"
  jvm_borrow :: "world \<Rightarrow> jref \<Rightarrow> outcome"
  jvm_store_throws :: "world \<Rightarrow> jref \<Rightarrow> bool"
  cbox_new_prekey :: "world \<Rightarrow> jlong \<Rightarrow> jint \<Rightarrow> CBoxResult \<times> CBoxVec ptr"
  cbox_fingerprint_local :: "world \<Rightarrow> jlong \<Rightarrow> CBoxResult \<times> CBoxVec ptr"
  cbox_fingerprint_remote :: "world \<Rightarrow> jlong \<Rightarrow> CBoxResult \<times> CBoxVec ptr"
  cbox_session_init_from_prekey ::
    "world \<Rightarrow> jlong \<Rightarrow> string ptr \<Rightarrow> byte list ptr \<Rightarrow> uint16_t
      \<Rightarrow> CBoxResult \<times> jlong \<times> byte list"
  cbox_session_init_from_message ::
    "world \<Rightarrow> jlong \<Rightarrow> string ptr \<Rightarrow> byte list ptr \<Rightarrow> uint32_t
      \<Rightarrow> CBoxResult \<times> jlong \<times> CBoxVec ptr \<times> byte list"
  cbox_encrypt ::
    "world \<Rightarrow> jlong \<Rightarrow> byte list ptr \<Rightarrow> uint32_t \<Rightarrow> CBoxResult \<times> CBoxVec ptr \<times> byte list"
  cbox_decrypt ::
    "world \<Rightarrow> jlong \<Rightarrow> byte list ptr \<Rightarrow> uint32_t \<Rightarrow> CBoxResult \<times> CBoxVec ptr \<times> byte list"

section \<open>The runtime interface\<close>

text \<open>
  Modelled from the spec: the functions of the runtime's native interface
  (\<^verbatim>\<open>jni.h\<close>, not part of the sources) that the bridge calls. Whether a call
  succeeds is the oracle's answer; what a call does to the heap, to the pending
  exception and to the log is written out here.
\<close>

definition log_event :: "event \<Rightarrow> world \<Rightarrow> world" where
  "log_event e w = w\<lparr>trace := trace w @ [e]\<rparr>"

definition ExceptionCheck :: "world \<Rightarrow> bool" where
  "ExceptionCheck w = (pending w \<noteq> NoException)"

text \<open>The runtime raises an exception of its own; one already pending stays.\<close>

definition jvm_raise :: "world \<Rightarrow> world" where
  "jvm_raise w = (if pending w = NoException then w\<lparr>pending := JvmException\<rparr> else w)"

definition Throw :: "world \<Rightarrow> jref \<Rightarrow> world" where
  "Throw w j_ex = w\<lparr>pending := Thrown j_ex\<rparr>"

fun deref :: "jobj list \<Rightarrow> jref \<Rightarrow> jobj option" where
  "deref h JNull = None"
| "deref h (JRef n) = (if n < length h then Some (h ! n) else None)"

text \<open>
  Allocation: a new object takes the next free index of the heap. The class and the
  constructor id that the source hands to \<^verbatim>\<open>NewObject\<close> come from the binding cache;
  the entry points run after a load that filled it, and the model names both by the
  constructor of \<open>jobj\<close>.
\<close>

definition NewObject :: "env \<Rightarrow> world \<Rightarrow> jobj \<Rightarrow> jref \<times> world" where
  "NewObject env w obj =
    (case jvm_new env w obj of
       Succeeds \<Rightarrow> (JRef (length (heap w)), w\<lparr>heap := heap w @ [obj]\<rparr>)
     | Throws \<Rightarrow> (JNull, jvm_raise w)
     | ReturnsNull \<Rightarrow> (JNull, w))"

text \<open>The length is a \<^verbatim>\<open>jsize\<close>: a negative one is refused with an exception.\<close>

definition NewByteArray :: "env \<Rightarrow> world \<Rightarrow> jint \<Rightarrow> jref \<times> world" where
  "NewByteArray env w len =
    (if sint len < 0 then (JNull, jvm_raise w)
     else NewObject env w (ByteArray (replicate (unat len) 0)))"

definition NewObjectArray :: "env \<Rightarrow> world \<Rightarrow> jint \<Rightarrow> jref \<times> world" where
  "NewObjectArray env w len =
    (if sint len < 0 then (JNull, jvm_raise w)
     else NewObject env w (ObjectArray (replicate (unat len) JNull)))"

definition SetByteArrayRegion ::
  "env \<Rightarrow> world \<Rightarrow> jref \<Rightarrow> nat \<Rightarrow> jint \<Rightarrow> byte list \<Rightarrow> fault + world" where
  "SetByteArrayRegion env w j_arr start len buf =
    (case j_arr of
       JNull \<Rightarrow> Inl BadRef
     | JRef n \<Rightarrow>
        (case deref (heap w) j_arr of
           Some (ByteArray old) \<Rightarrow>
             if jvm_store_throws env w j_arr \<or> sint len < 0 \<or> length old < start + unat len
             then Inr (jvm_raise w)
             else Inr (w\<lparr>heap := (heap w)[n := ByteArray
                    (take start old @ take (unat len) buf @ drop (start + unat len) old)]\<rparr>)
         | _ \<Rightarrow> Inl BadRef))"

definition SetObjectArrayElement ::
  "env \<Rightarrow> world \<Rightarrow> jref \<Rightarrow> jint \<Rightarrow> jref \<Rightarrow> fault + world" where
  "SetObjectArrayElement env w j_arr i val =
    (case j_arr of
       JNull \<Rightarrow> Inl BadRef
     | JRef n \<Rightarrow>
        (case deref (heap w) j_arr of
           Some (ObjectArray els) \<Rightarrow>
             if jvm_store_throws env w j_arr \<or> sint i < 0 \<or> length els \<le> unat i
             then Inr (jvm_raise w)
             else Inr (w\<lparr>heap := (heap w)[n := ObjectArray (els[unat i := val])]\<rparr>)
         | _ \<Rightarrow> Inl BadRef))"

definition GetArrayLength :: "world \<Rightarrow> jref \<Rightarrow> fault + jint" where
  "GetArrayLength w j_arr =
    (case deref (heap w) j_arr of
       Some (ByteArray bs) \<Rightarrow> Inr (of_nat (length bs))
     | Some (ObjectArray els) \<Rightarrow> Inr (of_nat (length els))
     | _ \<Rightarrow> Inl BadRef)"

text \<open>
  Borrowing the bytes of an array hands out a buffer with a copy of its contents; the
  release writes the buffer back unless its mode is \<^verbatim>\<open>JNI_ABORT\<close>.
\<close>

definition GetByteArrayElements :: "env \<Rightarrow> world \<Rightarrow> jref \<Rightarrow> fault + (byte list ptr \<times> world)" where
  "GetByteArrayElements env w j_arr =
    (case deref (heap w) j_arr of
       Some (ByteArray bs) \<Rightarrow>
         (case jvm_borrow env w j_arr of
            Succeeds \<Rightarrow> Inr (Ptr bs, log_event (GetBytes j_arr) w)
          | Throws \<Rightarrow> Inr (NULL, jvm_raise w)
          | ReturnsNull \<Rightarrow> Inr (NULL, w))
     | _ \<Rightarrow> Inl BadRef)"

definition ReleaseByteArrayElements ::
  "world \<Rightarrow> jref \<Rightarrow> byte list \<Rightarrow> release_mode \<Rightarrow> world" where
  "ReleaseByteArrayElements w j_arr buf mode =
    (let w1 = log_event (ReleaseBytes j_arr mode) w in
     case j_arr of
       JNull \<Rightarrow> w1
     | JRef n \<Rightarrow> if mode = JNI_ABORT then w1 else w1\<lparr>heap := (heap w1)[n := ByteArray buf]\<rparr>)"

definition GetStringUTFChars :: "env \<Rightarrow> world \<Rightarrow> jref \<Rightarrow> fault + (string ptr \<times> world)" where
  "GetStringUTFChars env w j_str =
    (case deref (heap w) j_str of
       Some (StringObj s) \<Rightarrow>
         (case jvm_borrow env w j_str of
            Succeeds \<Rightarrow> Inr (Ptr s, log_event (GetString j_str) w)
          | Throws \<Rightarrow> Inr (NULL, jvm_raise w)
          | ReturnsNull \<Rightarrow> Inr (NULL, w))
     | _ \<Rightarrow> Inl BadRef)"

definition ReleaseStringUTFChars :: "world \<Rightarrow> jref \<Rightarrow> world" where
  "ReleaseStringUTFChars w j_str = log_event (ReleaseString j_str) w"

section \<open>The engine's buffer interface\<close>

text \<open>
  Modelled from the spec: \<^verbatim>\<open>cbox_vec_len\<close>, \<^verbatim>\<open>cbox_vec_data\<close> and
  \<^verbatim>\<open>cbox_vec_free\<close> belong to the engine and are not part of the sources. They read
  through the pointer they are given: on a null pointer there is nothing to read,
  which is a fault of the process, not a value.
\<close>

definition cbox_vec_len :: "CBoxVec ptr \<Rightarrow> fault + uint32_t" where
  "cbox_vec_len v = (case v of NULL \<Rightarrow> Inl NullDeref | Ptr b \<Rightarrow> Inr (of_nat (length (vec_bytes b))))"

definition cbox_vec_data :: "CBoxVec ptr \<Rightarrow> fault + byte list" where
  "cbox_vec_data v = (case v of NULL \<Rightarrow> Inl NullDeref | Ptr b \<Rightarrow> Inr (vec_bytes b))"

definition cbox_vec_free :: "world \<Rightarrow> CBoxVec ptr \<Rightarrow> fault + world" where
  "cbox_vec_free w v =
    (case v of NULL \<Rightarrow> Inl NullDeref | Ptr b \<Rightarrow> Inr (log_event (VecFree (vec_addr b)) w))"

section \<open>Utilities of the bridge\<close>

definition cboxjni_throw :: "env \<Rightarrow> world \<Rightarrow> CBoxResult \<Rightarrow> world" where
  "cboxjni_throw env w code =
    (case NewObject env w (CryptoException code) of
       (j_ex, w1) \<Rightarrow> if ExceptionCheck w1 \<or> j_ex = JNull then w1 else Throw w1 j_ex)"

text \<open>The second argument says whether the value handed to the check is null.\<close>

definition cboxjni_check_error :: "world \<Rightarrow> bool \<Rightarrow> bool" where
  "cboxjni_check_error w val_is_null = (ExceptionCheck w \<or> val_is_null)"

definition cboxjni_vec2arr :: "env \<Rightarrow> world \<Rightarrow> CBoxVec ptr \<Rightarrow> fault + (jref \<times> world)" where
  "cboxjni_vec2arr env w v =
    (case cbox_vec_len v of
       Inl f \<Rightarrow> Inl f
     | Inr v_len \<Rightarrow>
        (case NewByteArray env w v_len of
           (j_arr, w1) \<Rightarrow>
             if cboxjni_check_error w1 (j_arr = JNull) then
               (case cbox_vec_free w1 v of
                  Inl f \<Rightarrow> Inl f
                | Inr w2 \<Rightarrow> Inr (JNull, w2))
             else
               (case cbox_vec_data v of
                  Inl f \<Rightarrow> Inl f
                | Inr data \<Rightarrow>
                   (case SetByteArrayRegion env w1 j_arr 0 v_len data of
                      Inl f \<Rightarrow> Inl f
                    | Inr w2 \<Rightarrow>
                       (case cbox_vec_free w2 v of
                          Inl f \<Rightarrow> Inl f
                        | Inr w3 \<Rightarrow>
                           if ExceptionCheck w3 then Inr (JNull, w3) else Inr (j_arr, w3))))))"

definition cboxjni_new_session :: "env \<Rightarrow> world \<Rightarrow> jlong \<Rightarrow> jref \<Rightarrow> jref \<times> world" where
  "cboxjni_new_session env w csess j_sid =
    (case NewObject env w (CryptoSession csess j_sid) of
       (j_sess, w1) \<Rightarrow> if cboxjni_check_error w1 (j_sess = JNull) then (JNull, w1) else (j_sess, w1))"

section \<open>Entry points of the store\<close>

text \<open>
  A handle is the native pointer as a \<^verbatim>\<open>jlong\<close>; the bridge casts it back and never
  reads through it, so the model hands the number on as it is.
\<close>

function new_prekeys_loop ::
  "env \<Rightarrow> jlong \<Rightarrow> jint \<Rightarrow> jint \<Rightarrow> jref \<Rightarrow> jint \<Rightarrow> world \<Rightarrow> fault + (jref \<times> world)" where
  "new_prekeys_loop env cbox j_start j_num bundles i w =
    (if sint i < sint j_num then
       (let j_id = j_start + i in
        case cbox_new_prekey env w cbox j_id of
          (rc, prekey) \<Rightarrow>
            let w1 = log_event (CallNewPrekey cbox j_id) w in
            if rc \<noteq> CBOX_SUCCESS then Inr (JNull, cboxjni_throw env w1 rc)
            else
              (case cboxjni_vec2arr env w1 prekey of
                 Inl f \<Rightarrow> Inl f
               | Inr (j_prekey, w2) \<Rightarrow>
                  if j_prekey = JNull then Inr (JNull, w2)
                  else
                    (case NewObject env w2 (PreKey j_id j_prekey) of
                       (j_pkb, w3) \<Rightarrow>
                         if cboxjni_check_error w3 (j_pkb = JNull) then Inr (JNull, w3)
                         else
                           (case SetObjectArrayElement env w3 bundles i j_pkb of
                              Inl f \<Rightarrow> Inl f
                            | Inr w4 \<Rightarrow>
                               if ExceptionCheck w4 then Inr (JNull, w4)
                               else new_prekeys_loop env cbox j_start j_num bundles (i + 1) w4))))
     else Inr (bundles, w))"
  by pat_completeness auto

termination
proof (relation "measure (\<lambda>(env, cbox, j_start, j_num, bundles, i, w). nat (sint j_num - sint i))")
  show "wf (measure (\<lambda>(env, cbox, j_start, j_num, bundles, i, w). nat (sint j_num - sint i)))"
    by simp
next
  fix j_num i :: jint
  assume lt: "sint i < sint j_num"
  have "sint j_num < 2 ^ 31"
    using sint_lt [of j_num] by simp
  moreover have "- (2 ^ 31) \<le> sint i"
    using sint_ge [of i] by simp
  ultimately have "signed_take_bit 31 (sint i + 1) = sint i + 1"
    using lt by (intro signed_take_bit_int_eq_self) simp_all
  then have "sint (i + 1) = sint i + 1"
    by (simp add: sint_word_ariths)
  then show "((env, cbox, j_start, j_num, bundles, i + 1, w4), (env, cbox, j_start, j_num, bundles, i, w))
      \<in> measure (\<lambda>(env, cbox, j_start, j_num, bundles, i, w). nat (sint j_num - sint i))"
    for env :: env and cbox :: jlong and j_start :: jint and bundles :: jref and w4 w :: world
    using lt by simp
qed

definition cboxjni_new_prekeys ::
  "env \<Rightarrow> world \<Rightarrow> jlong \<Rightarrow> jint \<Rightarrow> jint \<Rightarrow> fault + (jref \<times> world)" where
  "cboxjni_new_prekeys env w j_ptr j_start j_num =
    (case NewObjectArray env w j_num of
       (bundles, w1) \<Rightarrow>
         if cboxjni_check_error w1 (bundles = JNull) then Inr (JNull, w1)
         else new_prekeys_loop env j_ptr j_start j_num bundles 0 w1)"

definition cboxjni_local_fingerprint :: "env \<Rightarrow> world \<Rightarrow> jlong \<Rightarrow> fault + (jref \<times> world)" where
  "cboxjni_local_fingerprint env w j_ptr =
    (case cbox_fingerprint_local env w j_ptr of
       (rc, fp) \<Rightarrow> cboxjni_vec2arr env (log_event (CallFingerprintLocal j_ptr) w) fp)"

definition cboxjni_init_from_prekey ::
  "env \<Rightarrow> world \<Rightarrow> jlong \<Rightarrow> jref \<Rightarrow> jref \<Rightarrow> fault + (jref \<times> world)" where
  "cboxjni_init_from_prekey env w j_ptr j_sid j_prekey =
    (case GetStringUTFChars env w j_sid of
       Inl f \<Rightarrow> Inl f
     | Inr (sid, w1) \<Rightarrow>
        if cboxjni_check_error w1 (sid = NULL) then Inr (JNull, w1)
        else
          (case GetArrayLength w1 j_prekey of
             Inl f \<Rightarrow> Inl f
           | Inr n \<Rightarrow>
              let prekey_len = (ucast n :: uint16_t) in
              (case GetByteArrayElements env w1 j_prekey of
                 Inl f \<Rightarrow> Inl f
               | Inr (prekey, w2) \<Rightarrow>
                  if prekey = NULL then Inr (JNull, ReleaseStringUTFChars w2 j_sid)
                  else
                    (case cbox_session_init_from_prekey env w2 j_ptr sid prekey prekey_len of
                       (rc, sess, buf) \<Rightarrow>
                         let w3 = log_event (CallInitFromPrekey j_ptr sid prekey prekey_len) w2;
                             w4 = ReleaseByteArrayElements w3 j_prekey buf JNI_ABORT;
                             w5 = ReleaseStringUTFChars w4 j_sid
                         in if rc \<noteq> CBOX_SUCCESS then Inr (JNull, cboxjni_throw env w5 rc)
                            else Inr (cboxjni_new_session env w5 sess j_sid)))))"

definition cboxjni_init_from_message ::
  "env \<Rightarrow> world \<Rightarrow> jlong \<Rightarrow> jref \<Rightarrow> jref \<Rightarrow> fault + (jref \<times> world)" where
  "cboxjni_init_from_message env w j_ptr j_sid j_message =
    (case GetStringUTFChars env w j_sid of
       Inl f \<Rightarrow> Inl f
     | Inr (sid, w1) \<Rightarrow>
        if cboxjni_check_error w1 (sid = NULL) then Inr (JNull, w1)
        else
          (case GetArrayLength w1 j_message of
             Inl f \<Rightarrow> Inl f
           | Inr message_len \<Rightarrow>
              (case GetByteArrayElements env w1 j_message of
                 Inl f \<Rightarrow> Inl f
               | Inr (message, w2) \<Rightarrow>
                  if message = NULL then Inr (JNull, ReleaseStringUTFChars w2 j_sid)
                  else
                    (case cbox_session_init_from_message env w2 j_ptr sid message message_len of
                       (rc, sess, plain, buf) \<Rightarrow>
                         let w3 = log_event (CallInitFromMessage j_ptr sid message message_len) w2;
                             w4 = ReleaseByteArrayElements w3 j_message buf JNI_ABORT;
                             w5 = ReleaseStringUTFChars w4 j_sid
                         in if rc \<noteq> CBOX_SUCCESS then Inr (JNull, cboxjni_throw env w5 rc)
                            else
                              (case cboxjni_new_session env w5 sess j_sid of
                                 (j_sess, w6) \<Rightarrow>
                                   (case cboxjni_vec2arr env w6 plain of
                                      Inl f \<Rightarrow> Inl f
                                    | Inr (j_plaintext, w7) \<Rightarrow>
                                       if j_plaintext = JNull then Inr (JNull, w7)
                                       else Inr (NewObject env w7
                                              (SessionMessage j_sess j_plaintext))))))))"

section \<open>Entry points of a session\<close>

definition cboxjni_session_encrypt ::
  "env \<Rightarrow> world \<Rightarrow> jlong \<Rightarrow> jref \<Rightarrow> fault + (jref \<times> world)" where
  "cboxjni_session_encrypt env w j_ptr j_plain =
    (case GetArrayLength w j_plain of
       Inl f \<Rightarrow> Inl f
     | Inr plain_len \<Rightarrow>
        (case GetByteArrayElements env w j_plain of
           Inl f \<Rightarrow> Inl f
         | Inr (plain, w1) \<Rightarrow>
            if cboxjni_check_error w1 (plain = NULL) then Inr (JNull, w1)
            else
              (case cbox_encrypt env w1 j_ptr plain plain_len of
                 (rc, cipher, buf) \<Rightarrow>
                   let w2 = log_event (CallEncrypt j_ptr plain plain_len) w1;
                       w3 = ReleaseByteArrayElements w2 j_plain buf JNI_ABORT
                   in cboxjni_vec2arr env w3 cipher)))"

definition cboxjni_session_decrypt ::
  "env \<Rightarrow> world \<Rightarrow> jlong \<Rightarrow> jref \<Rightarrow> fault + (jref \<times> world)" where
  "cboxjni_session_decrypt env w j_ptr j_cipher =
    (case GetArrayLength w j_cipher of
       Inl f \<Rightarrow> Inl f
     | Inr cipher_len \<Rightarrow>
        (case GetByteArrayElements env w j_cipher of
           Inl f \<Rightarrow> Inl f
         | Inr (cipher, w1) \<Rightarrow>
            if cboxjni_check_error w1 (cipher = NULL) then Inr (JNull, w1)
            else
              (case cbox_decrypt env w1 j_ptr cipher cipher_len of
                 (rc, plain, buf) \<Rightarrow>
                   let w2 = log_event (CallDecrypt j_ptr cipher cipher_len) w1;
                       w3 = ReleaseByteArrayElements w2 j_cipher buf JNI_ABORT
                   in if rc \<noteq> CBOX_SUCCESS then Inr (JNull, cboxjni_throw env w3 rc)
                      else cboxjni_vec2arr env w3 plain)))"

definition cboxjni_remote_fingerprint :: "env \<Rightarrow> world \<Rightarrow> jlong \<Rightarrow> fault + (jref \<times> world)" where
  "cboxjni_remote_fingerprint env w j_ptr =
    (case cbox_fingerprint_remote env w j_ptr of
       (rc, fp) \<Rightarrow> cboxjni_vec2arr env (log_event (CallFingerprintRemote j_ptr) w) fp)"

section \<open>Observations on a world\<close>

text \<open>A failure object carrying \<open>code\<close> is pending in the runtime.\<close>

definition failure_raised :: "world \<Rightarrow> CBoxResult \<Rightarrow> bool" where
  "failure_raised w code =
    (case pending w of
       Thrown r \<Rightarrow> deref (heap w) r = Some (CryptoException code)
     | _ \<Rightarrow> False)"

text \<open>The ids of the prekey bundles an object array holds, as signed numbers, in order.\<close>

definition bundle_id :: "jobj list \<Rightarrow> jref \<Rightarrow> int option" where
  "bundle_id h r = (case deref h r of Some (PreKey j_id key) \<Rightarrow> Some (sint j_id) | _ \<Rightarrow> None)"

definition bundle_ids :: "world \<Rightarrow> jref \<Rightarrow> int option list option" where
  "bundle_ids w r =
    (case deref (heap w) r of
       Some (ObjectArray els) \<Rightarrow> Some (map (bundle_id (heap w)) els)
     | _ \<Rightarrow> None)"

section \<open>A concrete runtime and engine\<close>

text \<open>
  A world with a session id and a three-byte array on the heap, and an environment in
  which every call succeeds; the engine overwrites the input buffer it is lent.
\<close>

definition world0 :: world where
  "world0 = \<lparr>heap = [StringObj ''bob'', ByteArray [1, 2, 3]], pending = NoException, trace = []\<rparr>"

definition env_ok :: env where
  "env_ok =
    \<lparr>jvm_new = (\<lambda>w obj. Succeeds),
     jvm_borrow = (\<lambda>w r. Succeeds),
     jvm_store_throws = (\<lambda>w r. False),
     cbox_new_prekey =
       (\<lambda>w cbox j_id. (CBOX_SUCCESS, Ptr \<lparr>vec_addr = length (trace w), vec_bytes = [5, 5]\<rparr>)),
     cbox_fingerprint_local =
       (\<lambda>w cbox. (CBOX_SUCCESS, Ptr \<lparr>vec_addr = length (trace w), vec_bytes = [7, 7]\<rparr>)),
     cbox_fingerprint_remote =
       (\<lambda>w csess. (CBOX_SUCCESS, Ptr \<lparr>vec_addr = length (trace w), vec_bytes = [8, 8]\<rparr>)),
     cbox_session_init_from_prekey =
       (\<lambda>w cbox sid prekey n. (CBOX_SUCCESS, 64, [0, 0, 0])),
     cbox_session_init_from_message =
       (\<lambda>w cbox sid message n.
          (CBOX_SUCCESS, 64, Ptr \<lparr>vec_addr = length (trace w), vec_bytes = [104, 105]\<rparr>, [0, 0, 0])),
     cbox_encrypt =
       (\<lambda>w csess plain n.
          (CBOX_SUCCESS, Ptr \<lparr>vec_addr = length (trace w), vec_bytes = [9, 9, 9, 9]\<rparr>, [0, 0, 0])),
     cbox_decrypt =
       (\<lambda>w csess cipher n.
          (CBOX_SUCCESS, Ptr \<lparr>vec_addr = length (trace w), vec_bytes = [1, 2]\<rparr>, [0, 0, 0]))\<rparr>"

definition world_big :: world where
  "world_big = \<lparr>heap = [StringObj ''bob'', ByteArray (replicate 65539 0)],
                 pending = NoException, trace = []\<rparr>"

text \<open>
  Environments in which the runtime cannot construct one kind of object: the failure
  object (while the engine refuses to decrypt, with code 5), the session wrapper
  (raising, or handing back null with nothing pending), and the session-and-plaintext
  pair (while the session wrapper comes back null with nothing pending).
\<close>

definition env_decrypt_fails :: env where
  "env_decrypt_fails =
    env_ok\<lparr>jvm_new := (\<lambda>w obj. case obj of CryptoException c \<Rightarrow> Throws | _ \<Rightarrow> Succeeds),
            cbox_decrypt := (\<lambda>w csess cipher n. (5, NULL, [0, 0, 0]))\<rparr>"

definition env_session_fails :: "outcome \<Rightarrow> env" where
  "env_session_fails failure =
    env_ok\<lparr>jvm_new := (\<lambda>w obj. case obj of CryptoSession p j_sid \<Rightarrow> failure | _ \<Rightarrow> Succeeds)\<rparr>"

definition env_pair_fails :: env where
  "env_pair_fails =
    env_ok\<lparr>jvm_new := (\<lambda>w obj. case obj of CryptoSession p j_sid \<Rightarrow> ReturnsNull
                              | SessionMessage a b \<Rightarrow> Throws | _ \<Rightarrow> Succeeds)\<rparr>"

section \<open>Loading the bridge\<close>

text \<open>
  The binding cache is the eleven globals at the head of the file. A class reference
  is null or the global reference to the class of that name; a method id is null or
  the method of that class, name and signature.
\<close>

type_synonym jclass = "string ptr"
type_synonym jmethodID = "(jclass \<times> string \<times> string) ptr"

record binding_cache =
  cboxjni_ex_class :: jclass
  cboxjni_box_class :: jclass
  cboxjni_sess_class :: jclass
  cboxjni_sessmsg_class :: jclass
  cboxjni_bytearr_class :: jclass
  cboxjni_pkbundle_class :: jclass
  cboxjni_ex_ctor :: jmethodID
  cboxjni_sess_ctor :: jmethodID
  cboxjni_box_ctor :: jmethodID
  cboxjni_sessmsg_ctor :: jmethodID
  cboxjni_pkbundle_ctor :: jmethodID

text \<open>
  The state at load time: the cache, whether an exception is pending, and the tables
  of entry points registered so far, each with the class it was registered on.
\<close>

record loader =
  cache :: binding_cache
  load_pending :: bool
  registered :: "(jclass \<times> string list) list"

record load_env =
  get_env_ok :: bool
  find_class_outcome :: "string \<Rightarrow> outcome"
  global_ref_ok :: "string \<Rightarrow> bool"
  get_method_outcome :: "jclass \<Rightarrow> string \<Rightarrow> string \<Rightarrow> outcome"
  register_natives_rc :: "jclass \<Rightarrow> jint"

text \<open>
  Modelled from the spec: the constants of \<^verbatim>\<open>jni.h\<close> (not part of the sources) that
  \<^verbatim>\<open>JNI_OnLoad\<close> returns, and the lookups it calls. \<^verbatim>\<open>DeleteLocalRef\<close> has no
  effect that the model observes and is left out.
\<close>

definition JNI_ERR :: jint where
  "JNI_ERR = - 1"

definition JNI_EVERSION :: jint where
  "JNI_EVERSION = - 3"

definition JNI_VERSION_1_6 :: jint where
  "JNI_VERSION_1_6 = 65542"

definition FindClass :: "load_env \<Rightarrow> loader \<Rightarrow> string \<Rightarrow> jclass \<times> loader" where
  "FindClass le st name =
    (case find_class_outcome le name of
       Succeeds \<Rightarrow> (Ptr name, st)
     | Throws \<Rightarrow> (NULL, st\<lparr>load_pending := True\<rparr>)
     | ReturnsNull \<Rightarrow> (NULL, st))"

definition NewGlobalRef :: "load_env \<Rightarrow> jclass \<Rightarrow> jclass" where
  "NewGlobalRef le j_class =
    (case j_class of
       NULL \<Rightarrow> NULL
     | Ptr name \<Rightarrow> if global_ref_ok le name then Ptr name else NULL)"

definition GetMethodID ::
  "load_env \<Rightarrow> loader \<Rightarrow> jclass \<Rightarrow> string \<Rightarrow> string \<Rightarrow> jmethodID \<times> loader" where
  "GetMethodID le st cls name sig =
    (case get_method_outcome le cls name sig of
       Succeeds \<Rightarrow> (Ptr (cls, name, sig), st)
     | Throws \<Rightarrow> (NULL, st\<lparr>load_pending := True\<rparr>)
     | ReturnsNull \<Rightarrow> (NULL, st))"

definition RegisterNatives ::
  "load_env \<Rightarrow> loader \<Rightarrow> jclass \<Rightarrow> string list \<Rightarrow> jint \<times> loader" where
  "RegisterNatives le st cls methods =
    (let rc = register_natives_rc le cls in
     if sint rc < 0 then (rc, st) else (rc, st\<lparr>registered := registered st @ [(cls, methods)]\<rparr>))"

definition cboxjni_box_methods :: "string list" where
  "cboxjni_box_methods =
    [''jniOpen'', ''jniClose'', ''jniNewPreKeys'', ''jniGetLocalFingerprint'',
     ''jniInitSessionFromPreKey'', ''jniInitSessionFromMessage'', ''jniGetSession'']"

definition cboxjni_sess_methods :: "string list" where
  "cboxjni_sess_methods =
    [''jniEncrypt'', ''jniDecrypt'', ''jniSave'', ''jniClose'', ''jniGetRemoteFingerprint'']"

definition cboxjni_find_method ::
  "load_env \<Rightarrow> loader \<Rightarrow> jclass \<Rightarrow> string \<Rightarrow> string \<Rightarrow> jmethodID \<times> loader" where
  "cboxjni_find_method le st cls name sig =
    (case GetMethodID le st cls name sig of
       (mtd, st1) \<Rightarrow> if load_pending st1 then (NULL, st1) else (mtd, st1))"

definition cboxjni_find_class :: "load_env \<Rightarrow> loader \<Rightarrow> string \<Rightarrow> jclass \<times> loader" where
  "cboxjni_find_class le st name =
    (case FindClass le st name of
       (j_class, st1) \<Rightarrow>
         if load_pending st1 then (NULL, st1) else (NewGlobalRef le j_class, st1))"

text \<open>
  Each step stores what it resolved in its global and then tests a global against
  null; the test after the last constructor reads \<open>cboxjni_sessmsg_ctor\<close>, as the
  source does.
\<close>

definition JNI_OnLoad :: "load_env \<Rightarrow> loader \<Rightarrow> jint \<times> loader" where
  "JNI_OnLoad le st0 =
    (if \<not> get_env_ok le then (JNI_EVERSION, st0) else
     case cboxjni_find_class le st0 ''org/pkaboo/cryptobox/CryptoException'' of (c, s) \<Rightarrow>
     let st1 = s\<lparr>cache := (cache s)\<lparr>cboxjni_ex_class := c\<rparr>\<rparr> in
     if cboxjni_ex_class (cache st1) = NULL then (JNI_ERR, st1) else
     case cboxjni_find_class le st1 ''org/pkaboo/cryptobox/CryptoBox'' of (c, s) \<Rightarrow>
     let st2 = s\<lparr>cache := (cache s)\<lparr>cboxjni_box_class := c\<rparr>\<rparr> in
     if cboxjni_box_class (cache st2) = NULL then (JNI_ERR, st2) else
     case cboxjni_find_class le st2 ''org/pkaboo/cryptobox/CryptoSession'' of (c, s) \<Rightarrow>
     let st3 = s\<lparr>cache := (cache s)\<lparr>cboxjni_sess_class := c\<rparr>\<rparr> in
     if cboxjni_sess_class (cache st3) = NULL then (JNI_ERR, st3) else
     case cboxjni_find_class le st3 ''org/pkaboo/cryptobox/SessionMessage'' of (c, s) \<Rightarrow>
     let st4 = s\<lparr>cache := (cache s)\<lparr>cboxjni_sessmsg_class := c\<rparr>\<rparr> in
     if cboxjni_sessmsg_class (cache st4) = NULL then (JNI_ERR, st4) else
     case cboxjni_find_class le st4 ''[B'' of (c, s) \<Rightarrow>
     let st5 = s\<lparr>cache := (cache s)\<lparr>cboxjni_bytearr_class := c\<rparr>\<rparr> in
     if cboxjni_bytearr_class (cache st5) = NULL then (JNI_ERR, st5) else
     case cboxjni_find_class le st5 ''org/pkaboo/cryptobox/PreKey'' of (c, s) \<Rightarrow>
     let st6 = s\<lparr>cache := (cache s)\<lparr>cboxjni_pkbundle_class := c\<rparr>\<rparr> in
     if cboxjni_pkbundle_class (cache st6) = NULL then (JNI_ERR, st6) else
     case cboxjni_find_method le st6 (cboxjni_ex_class (cache st6)) ''<init>'' ''(I)V'' of (m, s) \<Rightarrow>
     let st7 = s\<lparr>cache := (cache s)\<lparr>cboxjni_ex_ctor := m\<rparr>\<rparr> in
     if cboxjni_ex_ctor (cache st7) = NULL then (JNI_ERR, st7) else
     case cboxjni_find_method le st7 (cboxjni_sess_class (cache st7)) ''<init>''
            ''(JLjava/lang/String;)V'' of (m, s) \<Rightarrow>
     let st8 = s\<lparr>cache := (cache s)\<lparr>cboxjni_sess_ctor := m\<rparr>\<rparr> in
     if cboxjni_sess_ctor (cache st8) = NULL then (JNI_ERR, st8) else
     case cboxjni_find_method le st8 (cboxjni_box_class (cache st8)) ''<init>'' ''(J)V'' of (m, s) \<Rightarrow>
     let st9 = s\<lparr>cache := (cache s)\<lparr>cboxjni_box_ctor := m\<rparr>\<rparr> in
     if cboxjni_box_ctor (cache st9) = NULL then (JNI_ERR, st9) else
     case cboxjni_find_method le st9 (cboxjni_sessmsg_class (cache st9)) ''<init>''
            ''(Lorg/pkaboo/cryptobox/CryptoSession;[B)V'' of (m, s) \<Rightarrow>
     let st10 = s\<lparr>cache := (cache s)\<lparr>cboxjni_sessmsg_ctor := m\<rparr>\<rparr> in
     if cboxjni_sessmsg_ctor (cache st10) = NULL then (JNI_ERR, st10) else
     case cboxjni_find_method le st10 (cboxjni_pkbundle_class (cache st10)) ''<init>''
            ''(I[B)V'' of (m, s) \<Rightarrow>
     let st11 = s\<lparr>cache := (cache s)\<lparr>cboxjni_pkbundle_ctor := m\<rparr>\<rparr> in
     if cboxjni_sessmsg_ctor (cache st11) = NULL then (JNI_ERR, st11) else
     case RegisterNatives le st11 (cboxjni_box_class (cache st11)) cboxjni_box_methods of
       (rc, st12) \<Rightarrow>
     if sint rc < 0 then (JNI_ERR, st12) else
     case RegisterNatives le st12 (cboxjni_sess_class (cache st12)) cboxjni_sess_methods of
       (rc, st13) \<Rightarrow>
     if sint rc < 0 then (JNI_ERR, st13) else (JNI_VERSION_1_6, st13))"

text \<open>
  A loader whose globals are all null, a runtime in which every lookup succeeds, one
  in which the class of the given name cannot be found, and one in which the class of
  the given name has no constructor of the signature asked for.
\<close>

definition loader0 :: loader where
  "loader0 =
    \<lparr>cache = \<lparr>cboxjni_ex_class = NULL, cboxjni_box_class = NULL, cboxjni_sess_class = NULL,
              cboxjni_sessmsg_class = NULL, cboxjni_bytearr_class = NULL,
              cboxjni_pkbundle_class = NULL, cboxjni_ex_ctor = NULL, cboxjni_sess_ctor = NULL,
              cboxjni_box_ctor = NULL, cboxjni_sessmsg_ctor = NULL, cboxjni_pkbundle_ctor = NULL\<rparr>,
     load_pending = False, registered = []\<rparr>"

definition load_env_ok :: load_env where
  "load_env_ok =
    \<lparr>get_env_ok = True, find_class_outcome = (\<lambda>name. Succeeds), global_ref_ok = (\<lambda>name. True),
     get_method_outcome = (\<lambda>cls name sig. Succeeds), register_natives_rc = (\<lambda>cls. 0)\<rparr>"

definition load_env_no_class :: "string \<Rightarrow> load_env" where
  "load_env_no_class class_name =
    load_env_ok\<lparr>find_class_outcome := (\<lambda>name. if name = class_name then Throws else Succeeds)\<rparr>"

definition load_env_no_ctor :: "string \<Rightarrow> load_env" where
  "load_env_no_ctor class_name =
    load_env_ok\<lparr>get_method_outcome :=
      (\<lambda>cls name sig. if cls = Ptr class_name then Throws else Succeeds)\<rparr>"

text \<open>Loading from \<open>loader0\<close> ends in \<^verbatim>\<open>JNI_ERR\<close> with no entry point registered.\<close>

definition aborts_unregistered :: "load_env \<Rightarrow> bool" where
  "aborts_unregistered le =
    (fst (JNI_OnLoad le loader0) = JNI_ERR \<and> registered (snd (JNI_OnLoad le loader0)) = [])"

section \<open>Facts about the runtime interface\<close>

lemma NewObject_trace: "NewObject env w obj = (r, w') \<Longrightarrow> trace w' = trace w"
  by (auto simp: NewObject_def jvm_raise_def split: outcome.splits if_splits)

lemma NewByteArray_trace: "NewByteArray env w len = (r, w') \<Longrightarrow> trace w' = trace w"
  by (auto simp: NewByteArray_def jvm_raise_def dest: NewObject_trace split: if_splits)

lemma NewByteArray_ref:
  "NewByteArray env w len = (JRef n, w') \<Longrightarrow>
     n = length (heap w) \<and> heap w' = heap w @ [ByteArray (replicate (unat len) 0)]
       \<and> pending w' = pending w \<and> 0 \<le> sint len"
  by (auto simp: NewByteArray_def NewObject_def split: if_splits outcome.splits)

lemma SetByteArrayRegion_fresh:
  assumes "heap w1 = h @ [ByteArray (replicate (unat len) 0)]"
  shows "\<exists>w2. SetByteArrayRegion env w1 (JRef (length h)) 0 len buf = Inr w2
            \<and> trace w2 = trace w1"
  using assms by (simp add: SetByteArrayRegion_def jvm_raise_def)

lemma GetString_Ptr:
  "GetStringUTFChars env w j_sid = Inr (Ptr s, w1) \<Longrightarrow>
     w1 = log_event (GetString j_sid) w \<and> deref (heap w) j_sid = Some (StringObj s)"
  by (auto simp: GetStringUTFChars_def split: option.splits jobj.splits outcome.splits)

lemma GetBytes_Ptr:
  "GetByteArrayElements env w j_arr = Inr (Ptr bs, w1) \<Longrightarrow>
     w1 = log_event (GetBytes j_arr) w \<and> deref (heap w) j_arr = Some (ByteArray bs)"
  by (auto simp: GetByteArrayElements_def split: option.splits jobj.splits outcome.splits)

lemma GetBytes_NULL:
  "GetByteArrayElements env w j_arr = Inr (NULL, w1) \<Longrightarrow>
     trace w1 = trace w \<and> heap w1 = heap w \<and> (\<exists>bs. deref (heap w) j_arr = Some (ByteArray bs))"
  by (auto simp: GetByteArrayElements_def jvm_raise_def
      split: option.splits jobj.splits outcome.splits)

lemma GetArrayLength_bytes:
  "deref (heap w) j_arr = Some (ByteArray bs) \<Longrightarrow> GetArrayLength w j_arr = Inr (of_nat (length bs))"
  by (simp add: GetArrayLength_def)

lemma log_event_simps [simp]:
  "heap (log_event e w) = heap w" "pending (log_event e w) = pending w"
  "trace (log_event e w) = trace w @ [e]"
  by (simp_all add: log_event_def)

lemma Release_abort_simps [simp]:
  "heap (ReleaseByteArrayElements w j buf JNI_ABORT) = heap w"
  "pending (ReleaseByteArrayElements w j buf m) = pending w"
  "trace (ReleaseByteArrayElements w j buf m) = trace w @ [ReleaseBytes j m]"
  by (simp_all add: ReleaseByteArrayElements_def Let_def split: jref.splits)

lemma ReleaseString_simps [simp]:
  "heap (ReleaseStringUTFChars w j) = heap w" "pending (ReleaseStringUTFChars w j) = pending w"
  "trace (ReleaseStringUTFChars w j) = trace w @ [ReleaseString j]"
  by (simp_all add: ReleaseStringUTFChars_def)

lemma throw_trace [simp]: "trace (cboxjni_throw env w code) = trace w"
  by (auto simp: cboxjni_throw_def Throw_def split: prod.splits dest: NewObject_trace)

lemma new_session_trace: "cboxjni_new_session env w sess j_sid = (r, w') \<Longrightarrow> trace w' = trace w"
  by (auto simp: cboxjni_new_session_def split: prod.splits if_splits dest: NewObject_trace)

subsection \<open>Word arithmetic\<close>

lemma ucast_len16: "unat (ucast (of_nat n :: jint) :: uint16_t) = n mod 2 ^ 16"
proof -
  have "unat (ucast (of_nat n :: jint) :: uint16_t) = (n mod 2 ^ 32) mod 2 ^ 16"
    by (simp add: unsigned_ucast_eq unat_of_nat take_bit_eq_mod)
  also have "\<dots> = n mod 2 ^ 16"
    by (simp add: mod_mod_cancel)
  finally show ?thesis .
qed

subsection \<open>The conversion\<close>

lemma NewByteArray_env:
  "jvm_new env' = jvm_new env \<Longrightarrow> NewByteArray env' = NewByteArray env"
  by (intro ext) (simp add: NewByteArray_def NewObject_def)

lemma SetByteArrayRegion_env:
  "jvm_store_throws env' = jvm_store_throws env \<Longrightarrow>
   SetByteArrayRegion env' = SetByteArrayRegion env"
  by (intro ext) (simp add: SetByteArrayRegion_def split: jref.splits option.splits jobj.splits)

lemma GetByteArrayElements_env:
  "jvm_borrow env' = jvm_borrow env \<Longrightarrow> GetByteArrayElements env' = GetByteArrayElements env"
  by (intro ext) (simp add: GetByteArrayElements_def split: option.splits jobj.splits)

lemma vec2arr_env:
  assumes "jvm_new env' = jvm_new env" and "jvm_store_throws env' = jvm_store_throws env"
  shows "cboxjni_vec2arr env' = cboxjni_vec2arr env"
  unfolding cboxjni_vec2arr_def NewByteArray_env [OF assms(1)] SetByteArrayRegion_env [OF assms(2)]
  by (rule refl)

lemma vec2arr_NULL: "cboxjni_vec2arr env w NULL = Inl NullDeref"
  by (simp add: cboxjni_vec2arr_def cbox_vec_len_def)

lemmas jni_defs =
  GetArrayLength_def GetByteArrayElements_def GetStringUTFChars_def ReleaseByteArrayElements_def
  ReleaseStringUTFChars_def NewObject_def NewByteArray_def NewObjectArray_def
  SetByteArrayRegion_def SetObjectArrayElement_def ExceptionCheck_def jvm_raise_def Throw_def
  log_event_def cbox_vec_len_def cbox_vec_data_def cbox_vec_free_def
  cboxjni_check_error_def cboxjni_throw_def cboxjni_vec2arr_def cboxjni_new_session_def
  CBOX_SUCCESS_def

lemma NewObject_heap:
  "NewObject env w obj = (r, w') \<Longrightarrow> prefix (heap w) (heap w')"
  by (auto simp: NewObject_def jvm_raise_def split: outcome.splits if_splits)

lemma NewObject_pending:
  "NewObject env w obj = (r, w') \<Longrightarrow>
     (pending w' = pending w \<or> pending w' = JvmException) \<and> (r \<noteq> JNull \<longrightarrow> pending w' = pending w)"
  by (auto simp: NewObject_def jvm_raise_def split: outcome.splits if_splits)

lemma throw_heap: "prefix (heap w) (heap (cboxjni_throw env w code))"
  by (auto simp: cboxjni_throw_def Throw_def split: prod.splits dest: NewObject_heap)

lemma new_session_heap:
  "cboxjni_new_session env w sess j_sid = (r, w') \<Longrightarrow> prefix (heap w) (heap w')"
  by (auto simp: cboxjni_new_session_def split: prod.splits if_splits dest: NewObject_heap)

lemma deref_prefix: "prefix h h' \<Longrightarrow> deref h r = Some x \<Longrightarrow> deref h' r = Some x"
  by (cases r) (auto simp: prefix_def nth_append split: if_splits)

lemma vec2arr_Inr:
  assumes "cboxjni_vec2arr env w v = Inr (r, w')"
  shows "\<exists>b. v = Ptr b \<and> trace w' = trace w @ [VecFree (vec_addr b)]
      \<and> prefix (heap w) (heap w')
      \<and> (pending w' = pending w \<or> pending w' = JvmException)
      \<and> (r \<noteq> JNull \<longrightarrow> pending w' = NoException)"
proof (cases v)
  case NULL
  with assms show ?thesis by (simp add: vec2arr_NULL)
next
  case (Ptr b)
  obtain j_arr w1 where n: "NewByteArray env w (of_nat (length (vec_bytes b))) = (j_arr, w1)"
    by (cases "NewByteArray env w (of_nat (length (vec_bytes b)))") auto
  have t1: "trace w1 = trace w"
    using n by (rule NewByteArray_trace)
  have h1: "prefix (heap w) (heap w1)"
    using n by (auto simp: NewByteArray_def jvm_raise_def dest: NewObject_heap split: if_splits)
  have p1: "pending w1 = pending w \<or> pending w1 = JvmException"
    using n by (auto simp: NewByteArray_def jvm_raise_def dest: NewObject_pending split: if_splits)
  show ?thesis
  proof (cases "cboxjni_check_error w1 (j_arr = JNull)")
    case True
    then show ?thesis
      using assms Ptr n t1 h1 p1
      by (auto simp: cboxjni_vec2arr_def cbox_vec_len_def cbox_vec_free_def)
  next
    case False
    then obtain k where k: "j_arr = JRef k" and e1: "pending w1 = NoException"
      by (cases j_arr) (auto simp: cboxjni_check_error_def ExceptionCheck_def)
    from n k have fresh: "k = length (heap w)"
      "heap w1 = heap w @ [ByteArray (replicate (unat (of_nat (length (vec_bytes b)) :: jint)) 0)]"
      "pending w1 = pending w"
      by (auto dest: NewByteArray_ref)
    obtain w2 where w2: "SetByteArrayRegion env w1 (JRef (length (heap w))) 0
        (of_nat (length (vec_bytes b))) (vec_bytes b) = Inr w2"
      using SetByteArrayRegion_fresh [OF fresh(2)] by blast
    have t2: "trace w2 = trace w1"
      using SetByteArrayRegion_fresh [OF fresh(2), of env "vec_bytes b"] w2 by simp
    have h2: "prefix (heap w) (heap w2)"
      using w2 fresh(2) by (auto simp: SetByteArrayRegion_def jvm_raise_def split: if_splits)
    have p2: "pending w2 = NoException \<or> pending w2 = JvmException"
      using w2 fresh(2) e1 by (auto simp: SetByteArrayRegion_def jvm_raise_def split: if_splits)
    show ?thesis
      using assms Ptr n False k fresh(1,3) e1 w2 t1 t2 h2 p2
      by (auto simp: cboxjni_vec2arr_def cbox_vec_len_def cbox_vec_data_def cbox_vec_free_def
          ExceptionCheck_def split: if_splits)
  qed
qed

subsection \<open>The conversion, continued\<close>

lemma vec2arr_returns: "\<exists>r w'. cboxjni_vec2arr env w (Ptr b) = Inr (r, w')"
proof (cases "NewByteArray env w (of_nat (length (vec_bytes b)))")
  case (Pair j_arr w1)
  show ?thesis
  proof (cases "cboxjni_check_error w1 (j_arr = JNull)")
    case True
    then show ?thesis
      using Pair by (simp add: cboxjni_vec2arr_def cbox_vec_len_def cbox_vec_free_def)
  next
    case False
    then obtain n where n: "j_arr = JRef n"
      by (cases j_arr) (auto simp: cboxjni_check_error_def)
    from Pair n have fresh: "n = length (heap w)"
      "heap w1 = heap w @ [ByteArray (replicate (unat (of_nat (length (vec_bytes b)) :: jint)) 0)]"
      by (auto dest: NewByteArray_ref)
    from SetByteArrayRegion_fresh [OF fresh(2)]
    obtain w2 where
      "SetByteArrayRegion env w1 (JRef (length (heap w))) 0 (of_nat (length (vec_bytes b)))
         (vec_bytes b) = Inr w2"
      by blast
    then show ?thesis
      using Pair False n fresh(1)
      by (simp add: cboxjni_vec2arr_def cbox_vec_len_def cbox_vec_data_def cbox_vec_free_def)
  qed
qed

lemma vec2arr_pending_null:
  assumes "ExceptionCheck w" and "cboxjni_vec2arr env w v = Inr (r, w')"
  shows "r = JNull"
  using vec2arr_Inr [OF assms(2)] assms(1) by (auto simp: ExceptionCheck_def)

lemma vec2arr_no_failure:
  assumes "\<not> ExceptionCheck w" and "cboxjni_vec2arr env w v = Inr (r, w')"
  shows "\<not> failure_raised w' c"
  using vec2arr_Inr [OF assms(2)] assms(1) by (auto simp: ExceptionCheck_def failure_raised_def)

lemma throw_raises:
  assumes "pending w = NoException" and "jvm_new env w (CryptoException code) = Succeeds"
  shows "failure_raised (cboxjni_throw env w code) code"
  using assms
  by (simp add: cboxjni_throw_def NewObject_def ExceptionCheck_def Throw_def failure_raised_def)

lemma replicate_2: "replicate 2 x = [x, x]"
  by (simp add: numeral_2_eq_2)

subsection \<open>The prekey loop\<close>

declare new_prekeys_loop.simps [simp del]

lemma sint_of_nat_small: "n < 2 ^ 31 \<Longrightarrow> sint (of_nat n :: jint) = int n"
proof -
  assume n: "n < 2 ^ 31"
  have "sint (of_nat n :: jint) = signed_take_bit 31 (int n)"
    using sint_sbintrunc' [of "int n", where 'a = 32] by simp
  also have "\<dots> = int n"
    using n by (intro signed_take_bit_int_eq_self) simp_all
  finally show ?thesis .
qed

lemma unat_of_nat_small: "n < 2 ^ 31 \<Longrightarrow> unat (of_nat n :: jint) = n"
  by (simp add: unat_of_nat)

lemma jint_nonneg_of_nat:
  assumes "0 \<le> sint (x :: jint)"
  shows "x = of_nat (nat (sint x)) \<and> nat (sint x) < 2 ^ 31"
proof -
  have "of_nat (nat (sint x)) = (of_int (int (nat (sint x))) :: jint)"
    by simp
  also have "\<dots> = of_int (sint x)"
    using assms by simp
  also have "\<dots> = x"
    by simp
  finally have "x = of_nat (nat (sint x))"
    by simp
  moreover have "nat (sint x) < 2 ^ 31"
    using sint_lt [of x] assms by (simp add: nat_less_iff)
  ultimately show ?thesis
    by simp
qed

lemma vec2arr_succeeds:
  assumes "pending w = NoException"
    and "\<forall>w obj. jvm_new env w obj = Succeeds"
    and "\<forall>w r. \<not> jvm_store_throws env w r"
    and "length (vec_bytes b) < 2 ^ 31"
  shows "cboxjni_vec2arr env w (Ptr b) =
      Inr (JRef (length (heap w)),
           w\<lparr>heap := heap w @ [ByteArray (vec_bytes b)],
             trace := trace w @ [VecFree (vec_addr b)]\<rparr>)"
  using assms
  by (simp add: jni_defs sint_of_nat_small unat_of_nat_small)

lemma bundle_id_frame:
  assumes "bundle_id h r = Some v" and "b < length h" and "h ! b = ObjectArray els"
  shows "bundle_id ((h @ ys)[b := x]) r = Some v"
proof (cases r)
  case JNull
  with assms(1) show ?thesis by (simp add: bundle_id_def)
next
  case (JRef k)
  with assms(1) have k: "k < length h" and "\<exists>j_id key. h ! k = PreKey j_id key"
    by (auto simp: bundle_id_def split: if_splits jobj.splits)
  with assms(3) have "k \<noteq> b"
    by auto
  then show ?thesis
    using assms(1) JRef k by (simp add: bundle_id_def nth_append)
qed

lemma new_prekeys_step:
  assumes new: "\<forall>w obj. jvm_new env w obj = Succeeds"
    and store: "\<forall>w r. \<not> jvm_store_throws env w r"
    and key: "cbox_new_prekey env w cbox (j_start + of_nat k) = (CBOX_SUCCESS, Ptr bv)"
      "length (vec_bytes bv) < 2 ^ 31"
    and n: "n < 2 ^ 31" "k < n"
    and w: "pending w = NoException" "b < length (heap w)" "heap w ! b = ObjectArray els"
      "length els = n"
  shows "new_prekeys_loop env cbox j_start (of_nat n) (JRef b) (of_nat k) w =
      new_prekeys_loop env cbox j_start (of_nat n) (JRef b) (of_nat (Suc k))
        (w\<lparr>trace := trace w @ [CallNewPrekey cbox (j_start + of_nat k), VecFree (vec_addr bv)],
           heap := (heap w @ [ByteArray (vec_bytes bv),
                PreKey (j_start + of_nat k) (JRef (length (heap w)))])
                [b := ObjectArray (els[k := JRef (Suc (length (heap w)))])]\<rparr>)"
proof -
  let ?j_id = "j_start + of_nat k :: jint"
  let ?w1 = "log_event (CallNewPrekey cbox ?j_id) w"
  let ?w2 = "?w1\<lparr>heap := heap ?w1 @ [ByteArray (vec_bytes bv)],
             trace := trace ?w1 @ [VecFree (vec_addr bv)]\<rparr>"
  have k31: "k < 2 ^ 31"
    using n by simp
  have lt: "sint (of_nat k :: jint) < sint (of_nat n :: jint)"
    using n k31 by (simp add: sint_of_nat_small)
  have v: "cboxjni_vec2arr env ?w1 (Ptr bv) = Inr (JRef (length (heap w)), ?w2)"
    using vec2arr_succeeds [OF _ new store key(2), of ?w1] w(1) by simp
  have o: "NewObject env ?w2 (PreKey ?j_id (JRef (length (heap w)))) =
      (JRef (Suc (length (heap w))),
       ?w2\<lparr>heap := heap ?w2 @ [PreKey ?j_id (JRef (length (heap w)))]\<rparr>)"
    using new by (simp add: NewObject_def)
  let ?w3 = "?w2\<lparr>heap := heap ?w2 @ [PreKey ?j_id (JRef (length (heap w)))]\<rparr>"
  have d3: "deref (heap ?w3) (JRef b) = Some (ObjectArray els)"
    using w(2,3) by (simp add: nth_append)
  have s: "SetObjectArrayElement env ?w3 (JRef b) (of_nat k) (JRef (Suc (length (heap w)))) =
      Inr (?w3\<lparr>heap := (heap ?w3)[b := ObjectArray (els[k := JRef (Suc (length (heap w)))])]\<rparr>)"
    using d3 store n w(4) k31
    by (simp add: SetObjectArrayElement_def sint_of_nat_small unat_of_nat_small del: deref.simps)
  have p: "pending ?w3 = NoException"
    using w(1) by simp
  show ?thesis
    apply (subst new_prekeys_loop.simps)
    using lt key(1) v o s p
    apply (simp add: Let_def cboxjni_check_error_def ExceptionCheck_def CBOX_SUCCESS_def
        log_event_def add.commute del: deref.simps)
    done
qed

lemma new_prekeys_loop_succeeds:
  assumes new: "\<forall>w obj. jvm_new env w obj = Succeeds"
    and store: "\<forall>w r. \<not> jvm_store_throws env w r"
    and key: "\<forall>w j_id. \<exists>bv. cbox_new_prekey env w cbox j_id = (CBOX_SUCCESS, Ptr bv)
                \<and> length (vec_bytes bv) < 2 ^ 31"
    and n: "n < 2 ^ 31"
  shows "k \<le> n \<Longrightarrow> pending w = NoException \<Longrightarrow> b < length (heap w) \<Longrightarrow>
     heap w ! b = ObjectArray els \<Longrightarrow> length els = n \<Longrightarrow>
     (\<forall>m<k. bundle_id (heap w) (els ! m) = Some (sint (j_start + of_nat m))) \<Longrightarrow>
     \<exists>w' els'. new_prekeys_loop env cbox j_start (of_nat n) (JRef b) (of_nat k) w = Inr (JRef b, w')
       \<and> b < length (heap w') \<and> heap w' ! b = ObjectArray els' \<and> length els' = n
       \<and> (\<forall>m<n. bundle_id (heap w') (els' ! m) = Some (sint (j_start + of_nat m)))"
proof (induction "n - k" arbitrary: k w els)
  case 0
  then have "k = n"
    by simp
  then have "new_prekeys_loop env cbox j_start (of_nat n) (JRef b) (of_nat k) w = Inr (JRef b, w)"
    by (subst new_prekeys_loop.simps) simp
  then show ?case
    using "0.prems" \<open>k = n\<close> by auto
next
  case (Suc d)
  then have kn: "k < n"
    by simp
  obtain bv where bv: "cbox_new_prekey env w cbox (j_start + of_nat k) = (CBOX_SUCCESS, Ptr bv)"
    "length (vec_bytes bv) < 2 ^ 31"
    using key by blast
  let ?h = "heap w @ [ByteArray (vec_bytes bv), PreKey (j_start + of_nat k) (JRef (length (heap w)))]"
  let ?els = "els[k := JRef (Suc (length (heap w)))]"
  let ?w4 = "w\<lparr>trace := trace w @ [CallNewPrekey cbox (j_start + of_nat k), VecFree (vec_addr bv)],
              heap := ?h[b := ObjectArray ?els]\<rparr>"
  have step: "new_prekeys_loop env cbox j_start (of_nat n) (JRef b) (of_nat k) w =
      new_prekeys_loop env cbox j_start (of_nat n) (JRef b) (of_nat (Suc k)) ?w4"
    using new_prekeys_step [OF new store bv n kn Suc.prems(2-5)] .
  have inv: "\<forall>m<Suc k. bundle_id (heap ?w4) (?els ! m) = Some (sint (j_start + of_nat m))"
  proof (intro allI impI)
    fix m
    assume m: "m < Suc k"
    show "bundle_id (heap ?w4) (?els ! m) = Some (sint (j_start + of_nat m))"
    proof (cases "m = k")
      case True
      then show ?thesis
        using kn Suc.prems(3,5) by (simp add: bundle_id_def nth_append)
    next
      case False
      with m have "m < k"
        by simp
      then have "bundle_id (heap w) (els ! m) = Some (sint (j_start + of_nat m))"
        using Suc.prems(6) by simp
      from bundle_id_frame [OF this Suc.prems(3,4)] False
      show ?thesis
        by simp
    qed
  qed
  have "\<exists>w' els'. new_prekeys_loop env cbox j_start (of_nat n) (JRef b) (of_nat (Suc k)) ?w4
         = Inr (JRef b, w')
       \<and> b < length (heap w') \<and> heap w' ! b = ObjectArray els' \<and> length els' = n
       \<and> (\<forall>m<n. bundle_id (heap w') (els' ! m) = Some (sint (j_start + of_nat m)))"
  proof (rule Suc.hyps(1))
    show "d = n - Suc k"
      using Suc.hyps(2) by simp
    show "Suc k \<le> n"
      using kn by simp
    show "pending ?w4 = NoException"
      using Suc.prems(2) by simp
    show "b < length (heap ?w4)"
      using Suc.prems(3) by simp
    show "heap ?w4 ! b = ObjectArray ?els"
      using Suc.prems(3) by simp
    show "length ?els = n"
      using Suc.prems(5) by simp
    show "\<forall>m<Suc k. bundle_id (heap ?w4) (?els ! m) = Some (sint (j_start + of_nat m))"
      by (rule inv)
  qed
  then show ?case
    unfolding step .
qed

lemma new_prekeys_word_ids:
  assumes new: "\<forall>w obj. jvm_new env w obj = Succeeds"
    and store: "\<forall>w r. \<not> jvm_store_throws env w r"
    and key: "\<forall>w j_id. \<exists>bv. cbox_new_prekey env w j_ptr j_id = (CBOX_SUCCESS, Ptr bv)
                \<and> length (vec_bytes bv) < 2 ^ 31"
    and p: "pending w = NoException"
    and num: "0 \<le> sint j_num"
  shows "\<exists>r w'. cboxjni_new_prekeys env w j_ptr j_start j_num = Inr (JRef r, w')
     \<and> bundle_ids w' (JRef r) =
         Some (map (\<lambda>k. Some (sint (j_start + of_nat k))) [0..<nat (sint j_num)])"
proof -
  let ?n = "nat (sint j_num)"
  let ?b = "length (heap w)"
  let ?w1 = "w\<lparr>heap := heap w @ [ObjectArray (replicate ?n JNull)]\<rparr>"
  have jn: "j_num = of_nat ?n" and n: "?n < 2 ^ 31"
    using jint_nonneg_of_nat [OF num] by simp_all
  have un: "unat j_num = ?n"
    using unat_of_nat_small [OF n] jn by simp
  have arr: "NewObjectArray env w j_num = (JRef ?b, ?w1)"
    using new num un by (simp add: NewObjectArray_def NewObject_def)
  have "\<exists>w' els'. new_prekeys_loop env j_ptr j_start (of_nat ?n) (JRef ?b) (of_nat 0) ?w1
         = Inr (JRef ?b, w')
       \<and> ?b < length (heap w') \<and> heap w' ! ?b = ObjectArray els' \<and> length els' = ?n
       \<and> (\<forall>m<?n. bundle_id (heap w') (els' ! m) = Some (sint (j_start + of_nat m)))"
    using p
    by (intro new_prekeys_loop_succeeds [OF new store key n, where k = 0 and w = "?w1"
          and b = "?b" and els = "replicate ?n JNull"]) simp_all
  then obtain w' els' where
    l: "new_prekeys_loop env j_ptr j_start (of_nat ?n) (JRef ?b) 0 ?w1 = Inr (JRef ?b, w')"
    and h: "?b < length (heap w')" "heap w' ! ?b = ObjectArray els'" "length els' = ?n"
    and ids: "\<forall>m<?n. bundle_id (heap w') (els' ! m) = Some (sint (j_start + of_nat m))"
    by auto
  have "cboxjni_new_prekeys env w j_ptr j_start j_num = Inr (JRef ?b, w')"
    using arr l p jn by (simp add: cboxjni_new_prekeys_def cboxjni_check_error_def ExceptionCheck_def)
  moreover have "map (bundle_id (heap w')) els'
      = map (\<lambda>k. Some (sint (j_start + of_nat k))) [0..<?n]"
    using h(3) ids by (simp add: list_eq_iff_nth_eq)
  then have "bundle_ids w' (JRef ?b)
      = Some (map (\<lambda>k. Some (sint (j_start + of_nat k))) [0..<?n])"
    using h(1,2) by (simp add: bundle_ids_def)
  ultimately show ?thesis
    by blast
qed

lemma sint_add_of_nat:
  assumes "sint (a :: jint) + int k < 2 ^ 31"
  shows "sint (a + of_nat k) = sint a + int k"
proof -
  have "a + of_nat k = (word_of_int (sint a + int k) :: jint)"
    by simp
  then have "sint (a + of_nat k) = signed_take_bit 31 (sint a + int k)"
    using sint_sbintrunc' [of "sint a + int k", where 'a = 32] by simp
  also have "\<dots> = sint a + int k"
  proof (rule signed_take_bit_int_eq_self)
    have "- (2 ^ 31) \<le> sint a"
      using sint_ge [of a] by simp
    then show "- (2 ^ 31) \<le> sint a + int k"
      by simp
    show "sint a + int k < 2 ^ 31"
      by (rule assms)
  qed
  finally show ?thesis .
qed

subsection \<open>The entry points that borrow an array\<close>

lemma encrypt_total:
  assumes b: "GetByteArrayElements env w j_arr = Inr (Ptr bs, w1)"
    and e: "\<not> ExceptionCheck w1"
    and c: "cbox_encrypt env w1 j_ptr (Ptr bs) (of_nat (length bs)) = (rc, out, buf)"
    and w3: "w3 = ReleaseByteArrayElements
        (log_event (CallEncrypt j_ptr (Ptr bs) (of_nat (length bs))) w1) j_arr buf JNI_ABORT"
  shows "deref (heap w) j_arr = Some (ByteArray bs)
     \<and> heap w3 = heap w
     \<and> trace w3 = trace w @ [GetBytes j_arr, CallEncrypt j_ptr (Ptr bs) (of_nat (length bs)),
          ReleaseBytes j_arr JNI_ABORT]
     \<and> cboxjni_session_encrypt env w j_ptr j_arr = cboxjni_vec2arr env w3 out
     \<and> (out = NULL \<longrightarrow> cboxjni_session_encrypt env w j_ptr j_arr = Inl NullDeref)
     \<and> (\<forall>ob. out = Ptr ob \<longrightarrow>
          (\<exists>r w'. cboxjni_session_encrypt env w j_ptr j_arr = Inr (r, w')
             \<and> trace w' = trace w3 @ [VecFree (vec_addr ob)]
             \<and> deref (heap w') j_arr = Some (ByteArray bs)))"
proof -
  have w1: "w1 = log_event (GetBytes j_arr) w" and d: "deref (heap w) j_arr = Some (ByteArray bs)"
    using GetBytes_Ptr [OF b] by simp_all
  have len: "GetArrayLength w j_arr = Inr (of_nat (length bs))"
    using d by (rule GetArrayLength_bytes)
  have eq: "cboxjni_session_encrypt env w j_ptr j_arr = cboxjni_vec2arr env w3 out"
    using b e c w3 len by (simp add: cboxjni_session_encrypt_def cboxjni_check_error_def)
  have h3: "heap w3 = heap w" and t3: "trace w3 = trace w @ [GetBytes j_arr,
      CallEncrypt j_ptr (Ptr bs) (of_nat (length bs)), ReleaseBytes j_arr JNI_ABORT]"
    using w1 w3 by simp_all
  have ptr: "\<exists>r w'. cboxjni_session_encrypt env w j_ptr j_arr = Inr (r, w')
             \<and> trace w' = trace w3 @ [VecFree (vec_addr ob)]
             \<and> deref (heap w') j_arr = Some (ByteArray bs)" if "out = Ptr ob" for ob
  proof -
    obtain r w' where r: "cboxjni_vec2arr env w3 (Ptr ob) = Inr (r, w')"
      using vec2arr_returns [of env w3 ob] by blast
    from vec2arr_Inr [OF r] have "trace w' = trace w3 @ [VecFree (vec_addr ob)]"
      and "prefix (heap w3) (heap w')"
      by auto
    then show ?thesis
      using r eq that d h3 by (auto intro: deref_prefix)
  qed
  show ?thesis
    using d h3 t3 eq ptr by (auto simp: vec2arr_NULL)
qed

lemma decrypt_total:
  assumes b: "GetByteArrayElements env w j_arr = Inr (Ptr bs, w1)"
    and e: "\<not> ExceptionCheck w1"
    and c: "cbox_decrypt env w1 j_ptr (Ptr bs) (of_nat (length bs)) = (rc, out, buf)"
    and w3: "w3 = ReleaseByteArrayElements
        (log_event (CallDecrypt j_ptr (Ptr bs) (of_nat (length bs))) w1) j_arr buf JNI_ABORT"
  shows "deref (heap w) j_arr = Some (ByteArray bs)
     \<and> heap w3 = heap w
     \<and> trace w3 = trace w @ [GetBytes j_arr, CallDecrypt j_ptr (Ptr bs) (of_nat (length bs)),
          ReleaseBytes j_arr JNI_ABORT]
     \<and> cboxjni_session_decrypt env w j_ptr j_arr =
          (if rc \<noteq> CBOX_SUCCESS then Inr (JNull, cboxjni_throw env w3 rc)
           else cboxjni_vec2arr env w3 out)
     \<and> (rc \<noteq> CBOX_SUCCESS \<longrightarrow>
          (\<exists>w'. cboxjni_session_decrypt env w j_ptr j_arr = Inr (JNull, w')
             \<and> trace w' = trace w3 \<and> deref (heap w') j_arr = Some (ByteArray bs)))
     \<and> (rc = CBOX_SUCCESS \<and> out = NULL \<longrightarrow>
          cboxjni_session_decrypt env w j_ptr j_arr = Inl NullDeref)
     \<and> (\<forall>ob. rc = CBOX_SUCCESS \<and> out = Ptr ob \<longrightarrow>
          (\<exists>r w'. cboxjni_session_decrypt env w j_ptr j_arr = Inr (r, w')
             \<and> trace w' = trace w3 @ [VecFree (vec_addr ob)]
             \<and> deref (heap w') j_arr = Some (ByteArray bs)))"
proof -
  have w1: "w1 = log_event (GetBytes j_arr) w" and d: "deref (heap w) j_arr = Some (ByteArray bs)"
    using GetBytes_Ptr [OF b] by simp_all
  have len: "GetArrayLength w j_arr = Inr (of_nat (length bs))"
    using d by (rule GetArrayLength_bytes)
  have eq: "cboxjni_session_decrypt env w j_ptr j_arr =
      (if rc \<noteq> CBOX_SUCCESS then Inr (JNull, cboxjni_throw env w3 rc)
       else cboxjni_vec2arr env w3 out)"
    using b e c w3 len by (simp add: cboxjni_session_decrypt_def cboxjni_check_error_def)
  have h3: "heap w3 = heap w" and t3: "trace w3 = trace w @ [GetBytes j_arr,
      CallDecrypt j_ptr (Ptr bs) (of_nat (length bs)), ReleaseBytes j_arr JNI_ABORT]"
    using w1 w3 by simp_all
  have d3: "deref (heap w3) j_arr = Some (ByteArray bs)"
    using d h3 by simp
  have thr: "deref (heap (cboxjni_throw env w3 rc)) j_arr = Some (ByteArray bs)"
    using deref_prefix [OF throw_heap d3] .
  have ptr: "\<exists>r w'. cboxjni_vec2arr env w3 (Ptr ob) = Inr (r, w')
             \<and> trace w' = trace w3 @ [VecFree (vec_addr ob)]
             \<and> deref (heap w') j_arr = Some (ByteArray bs)" for ob
  proof -
    obtain r w' where r: "cboxjni_vec2arr env w3 (Ptr ob) = Inr (r, w')"
      using vec2arr_returns [of env w3 ob] by blast
    from vec2arr_Inr [OF r] have "trace w' = trace w3 @ [VecFree (vec_addr ob)]"
      and "prefix (heap w3) (heap w')"
      by auto
    then show ?thesis
      using r d3 by (auto intro: deref_prefix)
  qed
  show ?thesis
    using d h3 t3 eq thr ptr by (auto simp: vec2arr_NULL)
qed

lemma init_from_prekey_total:
  assumes s: "GetStringUTFChars env w j_sid = Inr (Ptr s, w1)"
    and e: "\<not> ExceptionCheck w1"
    and b: "GetByteArrayElements env w1 j_arr = Inr (Ptr bs, w2)"
  shows "deref (heap w) j_arr = Some (ByteArray bs)
     \<and> (\<exists>r w'. cboxjni_init_from_prekey env w j_ptr j_sid j_arr = Inr (r, w')
          \<and> trace w' = trace w @ [GetString j_sid, GetBytes j_arr,
               CallInitFromPrekey j_ptr (Ptr s) (Ptr bs) (ucast (of_nat (length bs) :: jint)),
               ReleaseBytes j_arr JNI_ABORT, ReleaseString j_sid]
          \<and> deref (heap w') j_arr = Some (ByteArray bs))"
proof -
  have w1: "w1 = log_event (GetString j_sid) w"
    using GetString_Ptr [OF s] by simp
  have w2: "w2 = log_event (GetBytes j_arr) w1" and d: "deref (heap w1) j_arr = Some (ByteArray bs)"
    using GetBytes_Ptr [OF b] by simp_all
  have len: "GetArrayLength w1 j_arr = Inr (of_nat (length bs))"
    using d by (rule GetArrayLength_bytes)
  let ?n = "ucast (of_nat (length bs) :: jint) :: uint16_t"
  obtain rc sess buf where c:
    "cbox_session_init_from_prekey env w2 j_ptr (Ptr s) (Ptr bs) ?n = (rc, sess, buf)"
    by (cases "cbox_session_init_from_prekey env w2 j_ptr (Ptr s) (Ptr bs) ?n") auto
  let ?w5 = "ReleaseStringUTFChars (ReleaseByteArrayElements
      (log_event (CallInitFromPrekey j_ptr (Ptr s) (Ptr bs) ?n) w2) j_arr buf JNI_ABORT) j_sid"
  have d5: "deref (heap ?w5) j_arr = Some (ByteArray bs)"
    using d w1 w2 by simp
  have t5: "trace ?w5 = trace w @ [GetString j_sid, GetBytes j_arr,
      CallInitFromPrekey j_ptr (Ptr s) (Ptr bs) ?n, ReleaseBytes j_arr JNI_ABORT,
      ReleaseString j_sid]"
    using w1 w2 by simp
  have "\<exists>r w'. cboxjni_init_from_prekey env w j_ptr j_sid j_arr = Inr (r, w')
      \<and> trace w' = trace ?w5 \<and> prefix (heap ?w5) (heap w')"
  proof (cases "rc \<noteq> CBOX_SUCCESS")
    case True
    then have "cboxjni_init_from_prekey env w j_ptr j_sid j_arr
        = Inr (JNull, cboxjni_throw env ?w5 rc)"
      using s e b len c by (simp add: cboxjni_init_from_prekey_def cboxjni_check_error_def)
    then show ?thesis
      using throw_heap [of ?w5 env rc] by simp
  next
    case False
    obtain r w' where n: "cboxjni_new_session env ?w5 sess j_sid = (r, w')"
      by (cases "cboxjni_new_session env ?w5 sess j_sid") auto
    from False have "cboxjni_init_from_prekey env w j_ptr j_sid j_arr = Inr (r, w')"
      using s e b len c n by (simp add: cboxjni_init_from_prekey_def cboxjni_check_error_def)
    then show ?thesis
      using new_session_trace [OF n] new_session_heap [OF n] by simp
  qed
  then obtain r w' where "cboxjni_init_from_prekey env w j_ptr j_sid j_arr = Inr (r, w')"
    and "trace w' = trace ?w5" and "prefix (heap ?w5) (heap w')"
    by blast
  then show ?thesis
    using t5 d w1 deref_prefix [OF _ d5] by auto
qed

lemma init_from_message_unfold:
  assumes s: "GetStringUTFChars env w j_sid = Inr (Ptr s, w1)"
    and e: "\<not> ExceptionCheck w1"
    and b: "GetByteArrayElements env w1 j_arr = Inr (Ptr bs, w2)"
    and c: "cbox_session_init_from_message env w2 j_ptr (Ptr s) (Ptr bs) (of_nat (length bs))
           = (rc, sess, plain, buf)"
    and w5: "w5 = ReleaseStringUTFChars (ReleaseByteArrayElements
           (log_event (CallInitFromMessage j_ptr (Ptr s) (Ptr bs) (of_nat (length bs))) w2)
           j_arr buf JNI_ABORT) j_sid"
  shows "cboxjni_init_from_message env w j_ptr j_sid j_arr =
      (if rc \<noteq> CBOX_SUCCESS then Inr (JNull, cboxjni_throw env w5 rc)
       else
         (case cboxjni_new_session env w5 sess j_sid of
            (j_sess, w6) \<Rightarrow>
              (case cboxjni_vec2arr env w6 plain of
                 Inl f \<Rightarrow> Inl f
               | Inr (j_plaintext, w7) \<Rightarrow>
                  if j_plaintext = JNull then Inr (JNull, w7)
                  else Inr (NewObject env w7 (SessionMessage j_sess j_plaintext)))))"
    and "trace w5 = trace w @ [GetString j_sid, GetBytes j_arr,
          CallInitFromMessage j_ptr (Ptr s) (Ptr bs) (of_nat (length bs)),
          ReleaseBytes j_arr JNI_ABORT, ReleaseString j_sid]"
    and "heap w5 = heap w" and "pending w5 = NoException"
    and "deref (heap w) j_arr = Some (ByteArray bs)"
proof -
  have w1: "w1 = log_event (GetString j_sid) w"
    using GetString_Ptr [OF s] by simp
  have w2: "w2 = log_event (GetBytes j_arr) w1" and d: "deref (heap w1) j_arr = Some (ByteArray bs)"
    using GetBytes_Ptr [OF b] by simp_all
  have len: "GetArrayLength w1 j_arr = Inr (of_nat (length bs))"
    using d by (rule GetArrayLength_bytes)
  show "cboxjni_init_from_message env w j_ptr j_sid j_arr =
      (if rc \<noteq> CBOX_SUCCESS then Inr (JNull, cboxjni_throw env w5 rc)
       else
         (case cboxjni_new_session env w5 sess j_sid of
            (j_sess, w6) \<Rightarrow>
              (case cboxjni_vec2arr env w6 plain of
                 Inl f \<Rightarrow> Inl f
               | Inr (j_plaintext, w7) \<Rightarrow>
                  if j_plaintext = JNull then Inr (JNull, w7)
                  else Inr (NewObject env w7 (SessionMessage j_sess j_plaintext)))))"
    using s e b len c w5 [symmetric]
    by (simp add: cboxjni_init_from_message_def cboxjni_check_error_def)
  show "trace w5 = trace w @ [GetString j_sid, GetBytes j_arr,
          CallInitFromMessage j_ptr (Ptr s) (Ptr bs) (of_nat (length bs)),
          ReleaseBytes j_arr JNI_ABORT, ReleaseString j_sid]"
    using w1 w2 w5 by simp
  show "heap w5 = heap w"
    using w1 w2 w5 by simp
  show "pending w5 = NoException"
    using e w1 w2 w5 by (simp add: ExceptionCheck_def)
  show "deref (heap w) j_arr = Some (ByteArray bs)"
    using d w1 by simp
qed

lemma init_from_message_total:
  assumes s: "GetStringUTFChars env w j_sid = Inr (Ptr s, w1)"
    and e: "\<not> ExceptionCheck w1"
    and b: "GetByteArrayElements env w1 j_arr = Inr (Ptr bs, w2)"
    and c: "cbox_session_init_from_message env w2 j_ptr (Ptr s) (Ptr bs) (of_nat (length bs))
           = (rc, sess, plain, buf)"
    and t: "t = trace w @ [GetString j_sid, GetBytes j_arr,
          CallInitFromMessage j_ptr (Ptr s) (Ptr bs) (of_nat (length bs)),
          ReleaseBytes j_arr JNI_ABORT, ReleaseString j_sid]"
  shows "deref (heap w) j_arr = Some (ByteArray bs)
     \<and> (rc \<noteq> CBOX_SUCCESS \<longrightarrow>
          (\<exists>w'. cboxjni_init_from_message env w j_ptr j_sid j_arr = Inr (JNull, w')
             \<and> trace w' = t \<and> deref (heap w') j_arr = Some (ByteArray bs)))
     \<and> (rc = CBOX_SUCCESS \<and> plain = NULL \<longrightarrow>
          cboxjni_init_from_message env w j_ptr j_sid j_arr = Inl NullDeref)
     \<and> (\<forall>pb. rc = CBOX_SUCCESS \<and> plain = Ptr pb \<longrightarrow>
          (\<exists>r w'. cboxjni_init_from_message env w j_ptr j_sid j_arr = Inr (r, w')
             \<and> trace w' = t @ [VecFree (vec_addr pb)]
             \<and> deref (heap w') j_arr = Some (ByteArray bs)))"
proof -
  let ?w5 = "ReleaseStringUTFChars (ReleaseByteArrayElements
           (log_event (CallInitFromMessage j_ptr (Ptr s) (Ptr bs) (of_nat (length bs))) w2)
           j_arr buf JNI_ABORT) j_sid"
  note u = init_from_message_unfold [OF s e b c refl]
  have d5: "deref (heap ?w5) j_arr = Some (ByteArray bs)"
    using u(3,5) by simp
  have t5: "trace ?w5 = t"
    using u(2) t by simp
  obtain j_sess w6 where n: "cboxjni_new_session env ?w5 sess j_sid = (j_sess, w6)"
    by (cases "cboxjni_new_session env ?w5 sess j_sid") auto
  have t6: "trace w6 = t" and d6: "deref (heap w6) j_arr = Some (ByteArray bs)"
    using new_session_trace [OF n] deref_prefix [OF new_session_heap [OF n] d5] t5 by simp_all
  have fail: "\<exists>w'. cboxjni_init_from_message env w j_ptr j_sid j_arr = Inr (JNull, w')
             \<and> trace w' = t \<and> deref (heap w') j_arr = Some (ByteArray bs)"
    if "rc \<noteq> CBOX_SUCCESS"
    using that u(1) t5 deref_prefix [OF throw_heap d5] by simp
  have null: "cboxjni_init_from_message env w j_ptr j_sid j_arr = Inl NullDeref"
    if "rc = CBOX_SUCCESS" "plain = NULL"
    using that u(1) n by (simp add: vec2arr_NULL)
  have ptr: "\<exists>r w'. cboxjni_init_from_message env w j_ptr j_sid j_arr = Inr (r, w')
             \<and> trace w' = t @ [VecFree (vec_addr pb)]
             \<and> deref (heap w') j_arr = Some (ByteArray bs)"
    if ok: "rc = CBOX_SUCCESS" and pl: "plain = Ptr pb" for pb
  proof -
    obtain p w7 where v: "cboxjni_vec2arr env w6 (Ptr pb) = Inr (p, w7)"
      using vec2arr_returns [of env w6 pb] by blast
    from vec2arr_Inr [OF v] have t7: "trace w7 = t @ [VecFree (vec_addr pb)]"
      and h7: "prefix (heap w6) (heap w7)"
      using t6 by auto
    have d7: "deref (heap w7) j_arr = Some (ByteArray bs)"
      using deref_prefix [OF h7 d6] .
    show ?thesis
    proof (cases "p = JNull")
      case True
      then show ?thesis
        using u(1) ok pl n v t7 d7 by simp
    next
      case False
      obtain r w' where o: "NewObject env w7 (SessionMessage j_sess p) = (r, w')"
        by (cases "NewObject env w7 (SessionMessage j_sess p)") auto
      have "trace w' = trace w7" and "deref (heap w') j_arr = Some (ByteArray bs)"
        using NewObject_trace [OF o] deref_prefix [OF NewObject_heap [OF o] d7] by simp_all
      then show ?thesis
        using u(1) ok pl n v t7 False o by simp
    qed
  qed
  show ?thesis
    using u(5) fail null ptr by blast
qed

lemma vec2arr_succeeds_bytes:
  assumes "pending w = NoException"
    and "\<forall>w bs. jvm_new env w (ByteArray bs) = Succeeds"
    and "\<forall>w r. \<not> jvm_store_throws env w r"
    and "length (vec_bytes b) < 2 ^ 31"
  shows "cboxjni_vec2arr env w (Ptr b) =
      Inr (JRef (length (heap w)),
           w\<lparr>heap := heap w @ [ByteArray (vec_bytes b)],
             trace := trace w @ [VecFree (vec_addr b)]\<rparr>)"
  using assms
  by (simp add: jni_defs sint_of_nat_small unat_of_nat_small)

lemma NewByteArray_keeps_pending:
  "ExceptionCheck w \<Longrightarrow> ExceptionCheck (snd (NewByteArray env w n))"
  by (auto simp: NewByteArray_def NewObject_def jvm_raise_def ExceptionCheck_def
      split: outcome.splits)

lemma vec2arr_pending:
  assumes "ExceptionCheck w"
  shows "cboxjni_vec2arr env w (Ptr b) =
      Inr (JNull, log_event (VecFree (vec_addr b))
             (snd (NewByteArray env w (of_nat (length (vec_bytes b))))))"
proof (cases "NewByteArray env w (of_nat (length (vec_bytes b)))")
  case (Pair j_arr w1)
  then have "ExceptionCheck w1"
    using NewByteArray_keeps_pending [OF assms, of env "of_nat (length (vec_bytes b))"] by simp
  then show ?thesis
    using Pair
    by (simp add: cboxjni_vec2arr_def cbox_vec_len_def cbox_vec_free_def cboxjni_check_error_def)
qed

section \<open>Native buffers are freed exactly once\<close>

text \<open>
  C3. Whatever buffer \<open>cboxjni_vec2arr\<close> is handed, and however the runtime behaves,
  the conversion returns (it never faults on a buffer that exists) and the only event
  it adds to the log is one \<open>VecFree\<close> of that buffer: whether the allocation of the
  managed array fails, the copy raises, or the conversion succeeds, the buffer is
  freed once, not twice and not never.
\<close>

theorem vec2arr_frees_exactly_once:
  "\<exists>r w'. cboxjni_vec2arr env w (Ptr b) = Inr (r, w')
      \<and> trace w' = trace w @ [VecFree (vec_addr b)]
      \<and> count_list (trace w') (VecFree (vec_addr b))
          = count_list (trace w) (VecFree (vec_addr b)) + 1"
proof (cases "NewByteArray env w (of_nat (length (vec_bytes b)))")
  case (Pair j_arr w1)
  have t1: "trace w1 = trace w"
    using Pair by (rule NewByteArray_trace)
  show ?thesis
  proof (cases "cboxjni_check_error w1 (j_arr = JNull)")
    case True
    then show ?thesis
      using Pair t1
      by (simp add: cboxjni_vec2arr_def cbox_vec_len_def cbox_vec_free_def log_event_def)
  next
    case False
    then obtain n where n: "j_arr = JRef n"
      by (cases j_arr) (auto simp: cboxjni_check_error_def)
    from Pair n have fresh: "n = length (heap w)"
      "heap w1 = heap w @ [ByteArray (replicate (unat (of_nat (length (vec_bytes b)) :: jint)) 0)]"
      by (auto dest: NewByteArray_ref)
    from SetByteArrayRegion_fresh [OF fresh(2)]
    obtain w2 where w2:
      "SetByteArrayRegion env w1 (JRef (length (heap w))) 0 (of_nat (length (vec_bytes b)))
         (vec_bytes b) = Inr w2" "trace w2 = trace w1"
      by blast
    show ?thesis
      using Pair False n fresh(1) w2 t1
      by (simp add: cboxjni_vec2arr_def cbox_vec_len_def cbox_vec_data_def cbox_vec_free_def
          log_event_def)
  qed
qed

text \<open>
  The three exit paths, each taken: the allocation fails, the copy raises, and the
  conversion succeeds. The buffer is the two bytes at address 9.
\<close>

lemma vec2arr_exit_paths:
  "cboxjni_vec2arr (env_ok\<lparr>jvm_new := \<lambda>w obj. Throws\<rparr>) world0
      (Ptr \<lparr>vec_addr = 9, vec_bytes = [4, 2]\<rparr>)
     = Inr (JNull, \<lparr>heap = [StringObj ''bob'', ByteArray [1, 2, 3]], pending = JvmException,
                    trace = [VecFree 9]\<rparr>)
   \<and> cboxjni_vec2arr (env_ok\<lparr>jvm_store_throws := \<lambda>w r. True\<rparr>) world0
      (Ptr \<lparr>vec_addr = 9, vec_bytes = [4, 2]\<rparr>)
     = Inr (JNull, \<lparr>heap = [StringObj ''bob'', ByteArray [1, 2, 3], ByteArray [0, 0]],
                    pending = JvmException, trace = [VecFree 9]\<rparr>)
   \<and> cboxjni_vec2arr env_ok world0 (Ptr \<lparr>vec_addr = 9, vec_bytes = [4, 2]\<rparr>)
     = Inr (JRef 2, \<lparr>heap = [StringObj ''bob'', ByteArray [1, 2, 3], ByteArray [4, 2]],
                     pending = NoException, trace = [VecFree 9]\<rparr>)"
  by (simp add: jni_defs world0_def env_ok_def replicate_2)

section \<open>Result codes that are not checked\<close>

text \<open>
  C2. When the plaintext array can be borrowed, the encrypt entry point returns what
  the conversion makes of the output buffer, whatever result code \<open>c\<close> the engine
  reports: the code is never looked at.
\<close>

theorem encrypt_result_code_unchecked:
  assumes "GetArrayLength w j_plain = Inr plain_len"
    and "GetByteArrayElements env w j_plain = Inr (Ptr bs, w1)"
    and "\<not> ExceptionCheck w1"
    and "cbox_encrypt env w1 j_ptr (Ptr bs) plain_len = (rc, cipher, buf)"
  shows "cboxjni_session_encrypt
           (env\<lparr>cbox_encrypt := \<lambda>w' p b n. (c, snd (cbox_encrypt env w' p b n))\<rparr>) w j_ptr j_plain
         = cboxjni_vec2arr env
             (ReleaseByteArrayElements (log_event (CallEncrypt j_ptr (Ptr bs) plain_len) w1)
                j_plain buf JNI_ABORT) cipher"
proof -
  let ?env = "env\<lparr>cbox_encrypt := \<lambda>w' p b n. (c, snd (cbox_encrypt env w' p b n))\<rparr>"
  have b: "GetByteArrayElements ?env w j_plain = Inr (Ptr bs, w1)"
    using assms(2) GetByteArrayElements_env [of ?env env] by simp
  have v: "cboxjni_vec2arr ?env = cboxjni_vec2arr env"
    by (rule vec2arr_env) simp_all
  show ?thesis
    using assms(1,3,4) b
    by (simp add: cboxjni_session_encrypt_def cboxjni_check_error_def v)
qed

theorem encrypt_result_code_unchecked_witness:
  "cboxjni_session_encrypt
     (env_ok\<lparr>cbox_encrypt := \<lambda>w' p b n. (5, snd (cbox_encrypt env_ok w' p b n))\<rparr>)
     world0 64 (JRef 1)
   = Inr (JRef 2,
       \<lparr>heap = [StringObj ''bob'', ByteArray [1, 2, 3], ByteArray [9, 9, 9, 9]],
        pending = NoException,
        trace = [GetBytes (JRef 1), CallEncrypt 64 (Ptr [1, 2, 3]) 3,
                 ReleaseBytes (JRef 1) JNI_ABORT, VecFree 1]\<rparr>)"
proof -
  let ?w1 = "log_event (GetBytes (JRef 1)) world0"
  have h1: "GetArrayLength world0 (JRef 1) = Inr 3"
    by (simp add: GetArrayLength_def world0_def)
  have h2: "GetByteArrayElements env_ok world0 (JRef 1) = Inr (Ptr [1, 2, 3], ?w1)"
    by (simp add: GetByteArrayElements_def world0_def env_ok_def)
  have h3: "\<not> ExceptionCheck ?w1"
    by (simp add: ExceptionCheck_def world0_def)
  have h4: "cbox_encrypt env_ok ?w1 64 (Ptr [1, 2, 3]) 3
      = (CBOX_SUCCESS, Ptr \<lparr>vec_addr = 1, vec_bytes = [9, 9, 9, 9]\<rparr>, [0, 0, 0])"
    by (simp add: env_ok_def world0_def)
  show ?thesis
    unfolding encrypt_result_code_unchecked [OF h1 h2 h3 h4, of 5]
    by (simp add: jni_defs world0_def env_ok_def)
qed

text \<open>
  C8. Both fingerprint entry points hand the output pointer to the conversion whatever
  the result code; when the engine left the pointer null, reading its length is a
  null dereference, and the entry point ends in that fault instead of returning the
  null sentinel.
\<close>

theorem fingerprint_null_buffer:
  "cboxjni_local_fingerprint env w p =
      cboxjni_vec2arr env (log_event (CallFingerprintLocal p) w) (snd (cbox_fingerprint_local env w p))
   \<and> cboxjni_remote_fingerprint env w p =
      cboxjni_vec2arr env (log_event (CallFingerprintRemote p) w) (snd (cbox_fingerprint_remote env w p))
   \<and> (snd (cbox_fingerprint_local env w p) = NULL \<longrightarrow> cboxjni_local_fingerprint env w p = Inl NullDeref)
   \<and> (snd (cbox_fingerprint_remote env w p) = NULL \<longrightarrow> cboxjni_remote_fingerprint env w p = Inl NullDeref)"
  by (simp add: cboxjni_local_fingerprint_def cboxjni_remote_fingerprint_def vec2arr_NULL
      split: prod.splits)

theorem fingerprint_null_buffer_witness:
  "cboxjni_local_fingerprint (env_ok\<lparr>cbox_fingerprint_local := \<lambda>w cbox. (3, NULL)\<rparr>) world0 64
     = Inl NullDeref
   \<and> cboxjni_remote_fingerprint (env_ok\<lparr>cbox_fingerprint_remote := \<lambda>w cbox. (3, NULL)\<rparr>) world0 64
     = Inl NullDeref"
proof -
  let ?e1 = "env_ok\<lparr>cbox_fingerprint_local := \<lambda>w cbox. (3, NULL)\<rparr>"
  let ?e2 = "env_ok\<lparr>cbox_fingerprint_remote := \<lambda>w cbox. (3, NULL)\<rparr>"
  have "snd (cbox_fingerprint_local ?e1 world0 64) = NULL"
    by simp
  with fingerprint_null_buffer [of ?e1 world0 64]
  have a: "cboxjni_local_fingerprint ?e1 world0 64 = Inl NullDeref"
    by blast
  have "snd (cbox_fingerprint_remote ?e2 world0 64) = NULL"
    by simp
  with fingerprint_null_buffer [of ?e2 world0 64]
  have b: "cboxjni_remote_fingerprint ?e2 world0 64 = Inl NullDeref"
    by blast
  show ?thesis
    using a b by (rule conjI)
qed

section \<open>Starting a session\<close>

text \<open>
  C7. When the session id has been acquired and the bytes of the array cannot be
  borrowed, session-from-prekey and session-from-message return the null sentinel;
  the log gains the acquisition and the release of the session id and nothing else,
  so the engine is not called.
\<close>

theorem borrow_failure_aborts:
  assumes "GetStringUTFChars env w j_sid = Inr (Ptr s, w1)"
    and "\<not> ExceptionCheck w1"
    and "GetByteArrayElements env w1 j_arr = Inr (NULL, w2)"
  shows "cboxjni_init_from_prekey env w j_ptr j_sid j_arr = Inr (JNull, ReleaseStringUTFChars w2 j_sid)
       \<and> cboxjni_init_from_message env w j_ptr j_sid j_arr = Inr (JNull, ReleaseStringUTFChars w2 j_sid)
       \<and> trace (ReleaseStringUTFChars w2 j_sid) = trace w @ [GetString j_sid, ReleaseString j_sid]"
proof -
  from GetBytes_NULL [OF assms(3)] obtain bs where
    t: "trace w2 = trace w1" and d: "deref (heap w1) j_arr = Some (ByteArray bs)"
    by blast
  have len: "GetArrayLength w1 j_arr = Inr (of_nat (length bs))"
    using d by (rule GetArrayLength_bytes)
  have w1: "w1 = log_event (GetString j_sid) w"
    using GetString_Ptr [OF assms(1)] by simp
  have "cboxjni_init_from_prekey env w j_ptr j_sid j_arr = Inr (JNull, ReleaseStringUTFChars w2 j_sid)"
    using assms len by (simp add: cboxjni_init_from_prekey_def cboxjni_check_error_def)
  moreover
  have "cboxjni_init_from_message env w j_ptr j_sid j_arr = Inr (JNull, ReleaseStringUTFChars w2 j_sid)"
    using assms len by (simp add: cboxjni_init_from_message_def cboxjni_check_error_def)
  moreover
  have "trace (ReleaseStringUTFChars w2 j_sid) = trace w @ [GetString j_sid, ReleaseString j_sid]"
    using t w1 by simp
  ultimately show ?thesis by blast
qed

theorem borrow_failure_aborts_witness:
  "cboxjni_init_from_prekey (env_ok\<lparr>jvm_borrow := \<lambda>w r. if r = JRef 1 then Throws else Succeeds\<rparr>)
      world0 64 (JRef 0) (JRef 1)
     = Inr (JNull, \<lparr>heap = heap world0, pending = JvmException,
                    trace = [GetString (JRef 0), ReleaseString (JRef 0)]\<rparr>)
   \<and> cboxjni_init_from_message (env_ok\<lparr>jvm_borrow := \<lambda>w r. if r = JRef 1 then Throws else Succeeds\<rparr>)
      world0 64 (JRef 0) (JRef 1)
     = Inr (JNull, \<lparr>heap = heap world0, pending = JvmException,
                    trace = [GetString (JRef 0), ReleaseString (JRef 0)]\<rparr>)"
proof -
  let ?env = "env_ok\<lparr>jvm_borrow := \<lambda>w r. if r = JRef 1 then Throws else Succeeds\<rparr>"
  let ?w1 = "log_event (GetString (JRef 0)) world0"
  have h1: "GetStringUTFChars ?env world0 (JRef 0) = Inr (Ptr ''bob'', ?w1)"
    by (simp add: GetStringUTFChars_def world0_def env_ok_def)
  have h2: "\<not> ExceptionCheck ?w1"
    by (simp add: ExceptionCheck_def world0_def)
  have h3: "GetByteArrayElements ?env ?w1 (JRef 1) = Inr (NULL, jvm_raise ?w1)"
    by (simp add: GetByteArrayElements_def world0_def env_ok_def)
  show ?thesis
    using borrow_failure_aborts [OF h1 h2 h3, of 64]
    by (simp add: jni_defs world0_def)
qed

text \<open>
  C10. Session-from-prekey keeps the length of the prekey array in 16 bits: the
  length the engine is called with is the array's length modulo 65536, so an array of
  65536 bytes or more is passed with a shorter length.
\<close>

theorem init_from_prekey_length_mod:
  assumes "GetStringUTFChars env w j_sid = Inr (Ptr s, w1)"
    and "\<not> ExceptionCheck w1"
    and "GetByteArrayElements env w1 j_prekey = Inr (Ptr bs, w2)"
  shows "\<exists>r w' len. cboxjni_init_from_prekey env w j_ptr j_sid j_prekey = Inr (r, w')
      \<and> trace w' = trace w2 @ [CallInitFromPrekey j_ptr (Ptr s) (Ptr bs) len,
            ReleaseBytes j_prekey JNI_ABORT, ReleaseString j_sid]
      \<and> unat len = length bs mod 2 ^ 16
      \<and> (65536 \<le> length bs \<longrightarrow> unat len < length bs)"
proof -
  have d: "deref (heap w1) j_prekey = Some (ByteArray bs)"
    using GetBytes_Ptr [OF assms(3)] by simp
  have len: "GetArrayLength w1 j_prekey = Inr (of_nat (length bs))"
    using d by (rule GetArrayLength_bytes)
  let ?len = "ucast (of_nat (length bs) :: jint) :: uint16_t"
  obtain rc sess buf where n:
    "cbox_session_init_from_prekey env w2 j_ptr (Ptr s) (Ptr bs) ?len = (rc, sess, buf)"
    by (cases "cbox_session_init_from_prekey env w2 j_ptr (Ptr s) (Ptr bs) ?len") auto
  have m: "unat ?len = length bs mod 2 ^ 16"
    by (rule ucast_len16)
  have lt: "65536 \<le> length bs \<longrightarrow> unat ?len < length bs"
  proof
    assume "65536 \<le> length bs"
    moreover have "length bs mod 2 ^ 16 < 2 ^ 16" by simp
    ultimately show "unat ?len < length bs" unfolding m by simp
  qed
  show ?thesis
  proof (cases "rc \<noteq> CBOX_SUCCESS")
    case True
    then have "cboxjni_init_from_prekey env w j_ptr j_sid j_prekey
        = Inr (JNull, cboxjni_throw env (ReleaseStringUTFChars (ReleaseByteArrayElements
            (log_event (CallInitFromPrekey j_ptr (Ptr s) (Ptr bs) ?len) w2) j_prekey buf JNI_ABORT)
            j_sid) rc)"
      using assms len n by (simp add: cboxjni_init_from_prekey_def cboxjni_check_error_def)
    then show ?thesis using m lt by simp
  next
    case False
    then have "cboxjni_init_from_prekey env w j_ptr j_sid j_prekey
        = Inr (cboxjni_new_session env (ReleaseStringUTFChars (ReleaseByteArrayElements
            (log_event (CallInitFromPrekey j_ptr (Ptr s) (Ptr bs) ?len) w2) j_prekey buf JNI_ABORT)
            j_sid) sess j_sid)"
      using assms len n by (simp add: cboxjni_init_from_prekey_def cboxjni_check_error_def)
    moreover obtain r w' where r: "cboxjni_new_session env (ReleaseStringUTFChars
            (ReleaseByteArrayElements
            (log_event (CallInitFromPrekey j_ptr (Ptr s) (Ptr bs) ?len) w2) j_prekey buf JNI_ABORT)
            j_sid) sess j_sid = (r, w')"
      by (cases "cboxjni_new_session env (ReleaseStringUTFChars (ReleaseByteArrayElements
            (log_event (CallInitFromPrekey j_ptr (Ptr s) (Ptr bs) ?len) w2) j_prekey buf JNI_ABORT)
            j_sid) sess j_sid") auto
    ultimately show ?thesis
      using m lt new_session_trace [OF r] by simp
  qed
qed

theorem init_from_prekey_length_mod_witness:
  "\<exists>r w'. cboxjni_init_from_prekey env_ok world_big 64 (JRef 0) (JRef 1) = Inr (r, w')
     \<and> trace w' = [GetString (JRef 0), GetBytes (JRef 1),
          CallInitFromPrekey 64 (Ptr ''bob'') (Ptr (replicate 65539 0)) 3,
          ReleaseBytes (JRef 1) JNI_ABORT, ReleaseString (JRef 0)]"
proof -
  let ?w1 = "log_event (GetString (JRef 0)) world_big"
  let ?w2 = "log_event (GetBytes (JRef 1)) ?w1"
  have h1: "GetStringUTFChars env_ok world_big (JRef 0) = Inr (Ptr ''bob'', ?w1)"
    by (simp add: GetStringUTFChars_def world_big_def env_ok_def)
  have h2: "\<not> ExceptionCheck ?w1"
    by (simp add: ExceptionCheck_def world_big_def)
  have h3: "GetByteArrayElements env_ok ?w1 (JRef 1) = Inr (Ptr (replicate 65539 0), ?w2)"
    by (simp add: GetByteArrayElements_def world_big_def env_ok_def)
  from init_from_prekey_length_mod [OF h1 h2 h3, of 64]
  obtain r w' len where
    r: "cboxjni_init_from_prekey env_ok world_big 64 (JRef 0) (JRef 1) = Inr (r, w')"
    and t: "trace w' = trace ?w2 @ [CallInitFromPrekey 64 (Ptr ''bob'') (Ptr (replicate 65539 0)) len,
            ReleaseBytes (JRef 1) JNI_ABORT, ReleaseString (JRef 0)]"
    and l: "unat len = length (replicate 65539 (0 :: byte)) mod 2 ^ 16"
    by blast
  from l have "unat len = 3"
    by simp
  then have "word_of_nat (unat len) = (3 :: uint16_t)"
    by simp
  then have "len = 3"
    by simp
  with r t show ?thesis
    by (simp add: world_big_def)
qed

section \<open>Borrowed arrays\<close>

text \<open>
  C6. Each of the four entry points that borrow the bytes of a caller's array
  (encrypt, decrypt, session-from-prekey, session-from-message), once the borrow has
  succeeded, logs the borrow, then the native call, then the release with mode
  \<^verbatim>\<open>JNI_ABORT\<close>, which leaves the heap as it was. Whatever the engine answers and
  whatever it wrote into the buffer it was lent, the entry point then returns with the
  array holding the same bytes as before the call; the one exception is the engine
  leaving the output pointer null where the conversion follows (encrypt always,
  decrypt and session-from-message after a success code): there the conversion, which
  comes after the release, faults.
\<close>

theorem borrowed_arrays_unchanged:
  "(GetByteArrayElements env w j_arr = Inr (Ptr bs, w1) \<and> \<not> ExceptionCheck w1
      \<and> cbox_encrypt env w1 j_ptr (Ptr bs) (of_nat (length bs)) = (rc, out, buf)
      \<and> w3 = ReleaseByteArrayElements
          (log_event (CallEncrypt j_ptr (Ptr bs) (of_nat (length bs))) w1) j_arr buf JNI_ABORT
     \<longrightarrow> deref (heap w) j_arr = Some (ByteArray bs)
       \<and> heap w3 = heap w
       \<and> trace w3 = trace w @ [GetBytes j_arr, CallEncrypt j_ptr (Ptr bs) (of_nat (length bs)),
            ReleaseBytes j_arr JNI_ABORT]
       \<and> cboxjni_session_encrypt env w j_ptr j_arr = cboxjni_vec2arr env w3 out
       \<and> (out = NULL \<longrightarrow> cboxjni_session_encrypt env w j_ptr j_arr = Inl NullDeref)
       \<and> (\<forall>ob. out = Ptr ob \<longrightarrow>
            (\<exists>r w'. cboxjni_session_encrypt env w j_ptr j_arr = Inr (r, w')
               \<and> trace w' = trace w3 @ [VecFree (vec_addr ob)]
               \<and> deref (heap w') j_arr = Some (ByteArray bs))))
   \<and> (GetByteArrayElements env w j_arr = Inr (Ptr bs, w1) \<and> \<not> ExceptionCheck w1
      \<and> cbox_decrypt env w1 j_ptr (Ptr bs) (of_nat (length bs)) = (rc, out, buf)
      \<and> w3 = ReleaseByteArrayElements
          (log_event (CallDecrypt j_ptr (Ptr bs) (of_nat (length bs))) w1) j_arr buf JNI_ABORT
     \<longrightarrow> deref (heap w) j_arr = Some (ByteArray bs)
       \<and> heap w3 = heap w
       \<and> trace w3 = trace w @ [GetBytes j_arr, CallDecrypt j_ptr (Ptr bs) (of_nat (length bs)),
            ReleaseBytes j_arr JNI_ABORT]
       \<and> cboxjni_session_decrypt env w j_ptr j_arr =
            (if rc \<noteq> CBOX_SUCCESS then Inr (JNull, cboxjni_throw env w3 rc)
             else cboxjni_vec2arr env w3 out)
       \<and> (rc \<noteq> CBOX_SUCCESS \<longrightarrow>
            (\<exists>w'. cboxjni_session_decrypt env w j_ptr j_arr = Inr (JNull, w')
               \<and> trace w' = trace w3 \<and> deref (heap w') j_arr = Some (ByteArray bs)))
       \<and> (rc = CBOX_SUCCESS \<and> out = NULL \<longrightarrow>
            cboxjni_session_decrypt env w j_ptr j_arr = Inl NullDeref)
       \<and> (\<forall>ob. rc = CBOX_SUCCESS \<and> out = Ptr ob \<longrightarrow>
            (\<exists>r w'. cboxjni_session_decrypt env w j_ptr j_arr = Inr (r, w')
               \<and> trace w' = trace w3 @ [VecFree (vec_addr ob)]
               \<and> deref (heap w') j_arr = Some (ByteArray bs))))
   \<and> (GetStringUTFChars env w j_sid = Inr (Ptr s, w1) \<and> \<not> ExceptionCheck w1
      \<and> GetByteArrayElements env w1 j_arr = Inr (Ptr bs, w2)
     \<longrightarrow> deref (heap w) j_arr = Some (ByteArray bs)
       \<and> (\<exists>r w'. cboxjni_init_from_prekey env w j_ptr j_sid j_arr = Inr (r, w')
            \<and> trace w' = trace w @ [GetString j_sid, GetBytes j_arr,
                 CallInitFromPrekey j_ptr (Ptr s) (Ptr bs) (ucast (of_nat (length bs) :: jint)),
                 ReleaseBytes j_arr JNI_ABORT, ReleaseString j_sid]
            \<and> deref (heap w') j_arr = Some (ByteArray bs)))
   \<and> (GetStringUTFChars env w j_sid = Inr (Ptr s, w1) \<and> \<not> ExceptionCheck w1
      \<and> GetByteArrayElements env w1 j_arr = Inr (Ptr bs, w2)
      \<and> cbox_session_init_from_message env w2 j_ptr (Ptr s) (Ptr bs) (of_nat (length bs))
           = (rc, sess, plain, buf)
      \<and> t = trace w @ [GetString j_sid, GetBytes j_arr,
            CallInitFromMessage j_ptr (Ptr s) (Ptr bs) (of_nat (length bs)),
            ReleaseBytes j_arr JNI_ABORT, ReleaseString j_sid]
     \<longrightarrow> deref (heap w) j_arr = Some (ByteArray bs)
       \<and> (rc \<noteq> CBOX_SUCCESS \<longrightarrow>
            (\<exists>w'. cboxjni_init_from_message env w j_ptr j_sid j_arr = Inr (JNull, w')
               \<and> trace w' = t \<and> deref (heap w') j_arr = Some (ByteArray bs)))
       \<and> (rc = CBOX_SUCCESS \<and> plain = NULL \<longrightarrow>
            cboxjni_init_from_message env w j_ptr j_sid j_arr = Inl NullDeref)
       \<and> (\<forall>pb. rc = CBOX_SUCCESS \<and> plain = Ptr pb \<longrightarrow>
            (\<exists>r w'. cboxjni_init_from_message env w j_ptr j_sid j_arr = Inr (r, w')
               \<and> trace w' = t @ [VecFree (vec_addr pb)]
               \<and> deref (heap w') j_arr = Some (ByteArray bs))))"
  by (rule conjI [OF _ conjI [OF _ conjI]];
      rule impI, elim conjE,
      (rule encrypt_total | rule decrypt_total | rule init_from_prekey_total
        | rule init_from_message_total);
      assumption)

theorem borrowed_arrays_unchanged_witness:
  "cboxjni_session_encrypt env_ok world0 64 (JRef 1)
     = Inr (JRef 2,
         \<lparr>heap = [StringObj ''bob'', ByteArray [1, 2, 3], ByteArray [9, 9, 9, 9]],
          pending = NoException,
          trace = [GetBytes (JRef 1), CallEncrypt 64 (Ptr [1, 2, 3]) 3,
                   ReleaseBytes (JRef 1) JNI_ABORT, VecFree 1]\<rparr>)
   \<and> cboxjni_session_decrypt env_ok world0 64 (JRef 1)
     = Inr (JRef 2,
         \<lparr>heap = [StringObj ''bob'', ByteArray [1, 2, 3], ByteArray [1, 2]],
          pending = NoException,
          trace = [GetBytes (JRef 1), CallDecrypt 64 (Ptr [1, 2, 3]) 3,
                   ReleaseBytes (JRef 1) JNI_ABORT, VecFree 1]\<rparr>)
   \<and> cboxjni_init_from_prekey env_ok world0 64 (JRef 0) (JRef 1)
     = Inr (JRef 2,
         \<lparr>heap = [StringObj ''bob'', ByteArray [1, 2, 3], CryptoSession 64 (JRef 0)],
          pending = NoException,
          trace = [GetString (JRef 0), GetBytes (JRef 1),
                   CallInitFromPrekey 64 (Ptr ''bob'') (Ptr [1, 2, 3]) 3,
                   ReleaseBytes (JRef 1) JNI_ABORT, ReleaseString (JRef 0)]\<rparr>)
   \<and> cboxjni_init_from_message env_ok world0 64 (JRef 0) (JRef 1)
     = Inr (JRef 4,
         \<lparr>heap = [StringObj ''bob'', ByteArray [1, 2, 3], CryptoSession 64 (JRef 0),
                  ByteArray [104, 105], SessionMessage (JRef 2) (JRef 3)],
          pending = NoException,
          trace = [GetString (JRef 0), GetBytes (JRef 1),
                   CallInitFromMessage 64 (Ptr ''bob'') (Ptr [1, 2, 3]) 3,
                   ReleaseBytes (JRef 1) JNI_ABORT, ReleaseString (JRef 0), VecFree 2]\<rparr>)
   \<and> snd (snd (cbox_encrypt env_ok (log_event (GetBytes (JRef 1)) world0) 64 (Ptr [1, 2, 3]) 3))
       = [0, 0, 0]"
proof -
  let ?g = "log_event (GetBytes (JRef 1)) world0"
  let ?s = "log_event (GetString (JRef 0)) world0"
  let ?sg = "log_event (GetBytes (JRef 1)) ?s"
  let ?n = "of_nat (length [1, 2, 3 :: byte]) :: jint"
  have g: "GetByteArrayElements env_ok world0 (JRef 1) = Inr (Ptr [1, 2, 3], ?g)"
    by (simp add: GetByteArrayElements_def world0_def env_ok_def)
  have ng: "\<not> ExceptionCheck ?g"
    by (simp add: ExceptionCheck_def world0_def)
  have s: "GetStringUTFChars env_ok world0 (JRef 0) = Inr (Ptr ''bob'', ?s)"
    by (simp add: GetStringUTFChars_def world0_def env_ok_def)
  have ns: "\<not> ExceptionCheck ?s"
    by (simp add: ExceptionCheck_def world0_def)
  have sg: "GetByteArrayElements env_ok ?s (JRef 1) = Inr (Ptr [1, 2, 3], ?sg)"
    by (simp add: GetByteArrayElements_def world0_def env_ok_def)
  have enc: "cbox_encrypt env_ok ?g 64 (Ptr [1, 2, 3]) ?n
      = (CBOX_SUCCESS, Ptr \<lparr>vec_addr = 1, vec_bytes = [9, 9, 9, 9]\<rparr>, [0, 0, 0])"
    by (simp add: env_ok_def world0_def)
  have dec: "cbox_decrypt env_ok ?g 64 (Ptr [1, 2, 3]) ?n
      = (CBOX_SUCCESS, Ptr \<lparr>vec_addr = 1, vec_bytes = [1, 2]\<rparr>, [0, 0, 0])"
    by (simp add: env_ok_def world0_def)
  have msg: "cbox_session_init_from_message env_ok ?sg 64 (Ptr ''bob'') (Ptr [1, 2, 3]) ?n
      = (CBOX_SUCCESS, 64, Ptr \<lparr>vec_addr = 2, vec_bytes = [104, 105]\<rparr>, [0, 0, 0])"
    by (simp add: env_ok_def world0_def)
  note c1 = borrowed_arrays_unchanged [THEN conjunct1, THEN mp,
      OF conjI [OF g conjI [OF ng conjI [OF enc refl]]]]
  note c2 = borrowed_arrays_unchanged [THEN conjunct2, THEN conjunct1, THEN mp,
      OF conjI [OF g conjI [OF ng conjI [OF dec refl]]]]
  note c3 = borrowed_arrays_unchanged [THEN conjunct2, THEN conjunct2, THEN conjunct1, THEN mp,
      OF conjI [OF s conjI [OF ns sg]]]
  note c4 = borrowed_arrays_unchanged [THEN conjunct2, THEN conjunct2, THEN conjunct2, THEN mp,
      OF conjI [OF s conjI [OF ns conjI [OF sg conjI [OF msg refl]]]]]
  from c1 have e1: "\<exists>r w'. cboxjni_session_encrypt env_ok world0 64 (JRef 1) = Inr (r, w')
      \<and> deref (heap w') (JRef 1) = Some (ByteArray [1, 2, 3])"
    by blast
  from c2 have e2: "\<exists>r w'. cboxjni_session_decrypt env_ok world0 64 (JRef 1) = Inr (r, w')
      \<and> deref (heap w') (JRef 1) = Some (ByteArray [1, 2, 3])"
    by blast
  from c3 have e3: "\<exists>r w'. cboxjni_init_from_prekey env_ok world0 64 (JRef 0) (JRef 1) = Inr (r, w')
      \<and> deref (heap w') (JRef 1) = Some (ByteArray [1, 2, 3])"
    by blast
  from c4 have e4: "\<exists>r w'. cboxjni_init_from_message env_ok world0 64 (JRef 0) (JRef 1) = Inr (r, w')
      \<and> deref (heap w') (JRef 1) = Some (ByteArray [1, 2, 3])"
    by blast
  show ?thesis
    using e1 e2 e3 e4
    by (simp add: cboxjni_session_encrypt_def cboxjni_session_decrypt_def
        cboxjni_init_from_prekey_def cboxjni_init_from_message_def jni_defs world0_def env_ok_def)
qed

section \<open>Failure objects\<close>

text \<open>
  C5, as the claim states it, fails: the engine refuses to decrypt with code 5, and
  the runtime cannot construct the failure object. The entry point returns the null
  sentinel, and what is pending is the runtime's own exception, not a failure object
  carrying 5.
\<close>

theorem decrypt_failure_object_counterexample:
  "fst (cbox_decrypt env_decrypt_fails (log_event (GetBytes (JRef 1)) world0) 64 (Ptr [1, 2, 3]) 3)
     \<noteq> CBOX_SUCCESS
   \<and> cboxjni_session_decrypt env_decrypt_fails world0 64 (JRef 1)
     = Inr (JNull,
         \<lparr>heap = [StringObj ''bob'', ByteArray [1, 2, 3]], pending = JvmException,
          trace = [GetBytes (JRef 1), CallDecrypt 64 (Ptr [1, 2, 3]) 3,
                   ReleaseBytes (JRef 1) JNI_ABORT]\<rparr>)
   \<and> \<not> failure_raised
         \<lparr>heap = [StringObj ''bob'', ByteArray [1, 2, 3]], pending = JvmException,
          trace = [GetBytes (JRef 1), CallDecrypt 64 (Ptr [1, 2, 3]) 3,
                   ReleaseBytes (JRef 1) JNI_ABORT]\<rparr> 5"
  by (simp add: cboxjni_session_decrypt_def jni_defs world0_def env_ok_def env_decrypt_fails_def
      failure_raised_def)

text \<open>
  C5, amended. With the ciphertext borrowed: when the engine reports a code other
  than success, the entry point returns the null sentinel, and a failure object
  carrying that code is pending provided the runtime constructs it; when the engine
  reports success, the entry point returns what the conversion makes of the plaintext
  buffer, and no failure object is pending afterwards.
\<close>

theorem decrypt_failure_object:
  assumes "GetByteArrayElements env w j_cipher = Inr (Ptr bs, w1)"
    and "\<not> ExceptionCheck w1"
    and "cbox_decrypt env w1 j_ptr (Ptr bs) (of_nat (length bs)) = (rc, plain, buf)"
    and "w3 = ReleaseByteArrayElements
            (log_event (CallDecrypt j_ptr (Ptr bs) (of_nat (length bs))) w1) j_cipher buf JNI_ABORT"
  shows "(rc \<noteq> CBOX_SUCCESS \<longrightarrow>
            (\<exists>w'. cboxjni_session_decrypt env w j_ptr j_cipher = Inr (JNull, w')
               \<and> (jvm_new env w3 (CryptoException rc) = Succeeds \<longrightarrow> failure_raised w' rc)))
       \<and> (rc = CBOX_SUCCESS \<longrightarrow>
            cboxjni_session_decrypt env w j_ptr j_cipher = cboxjni_vec2arr env w3 plain
            \<and> (\<forall>r w' c. cboxjni_session_decrypt env w j_ptr j_cipher = Inr (r, w')
                  \<longrightarrow> \<not> failure_raised w' c))"
proof -
  have d: "deref (heap w) j_cipher = Some (ByteArray bs)"
    using GetBytes_Ptr [OF assms(1)] by simp
  have len: "GetArrayLength w j_cipher = Inr (of_nat (length bs))"
    using d by (rule GetArrayLength_bytes)
  have p3: "pending w3 = NoException"
    using assms(2,4) by (simp add: ExceptionCheck_def)
  have fail: "rc \<noteq> CBOX_SUCCESS \<Longrightarrow>
      cboxjni_session_decrypt env w j_ptr j_cipher = Inr (JNull, cboxjni_throw env w3 rc)"
    using assms len by (simp add: cboxjni_session_decrypt_def cboxjni_check_error_def)
  have ok: "rc = CBOX_SUCCESS \<Longrightarrow>
      cboxjni_session_decrypt env w j_ptr j_cipher = cboxjni_vec2arr env w3 plain"
    using assms len by (simp add: cboxjni_session_decrypt_def cboxjni_check_error_def)
  have nf: "\<not> failure_raised w' c" if "cboxjni_vec2arr env w3 plain = Inr (r, w')" for r w' c
    using vec2arr_no_failure [OF _ that] p3 by (simp add: ExceptionCheck_def)
  show ?thesis
    using fail ok nf throw_raises [OF p3] by auto
qed

theorem decrypt_failure_object_witness:
  "cboxjni_session_decrypt (env_ok\<lparr>cbox_decrypt := \<lambda>w csess cipher n. (5, NULL, [0, 0, 0])\<rparr>)
      world0 64 (JRef 1)
     = Inr (JNull,
         \<lparr>heap = [StringObj ''bob'', ByteArray [1, 2, 3], CryptoException 5],
          pending = Thrown (JRef 2),
          trace = [GetBytes (JRef 1), CallDecrypt 64 (Ptr [1, 2, 3]) 3,
                   ReleaseBytes (JRef 1) JNI_ABORT]\<rparr>)
   \<and> failure_raised
         \<lparr>heap = [StringObj ''bob'', ByteArray [1, 2, 3], CryptoException 5],
          pending = Thrown (JRef 2),
          trace = [GetBytes (JRef 1), CallDecrypt 64 (Ptr [1, 2, 3]) 3,
                   ReleaseBytes (JRef 1) JNI_ABORT]\<rparr> 5"
proof -
  let ?env = "env_ok\<lparr>cbox_decrypt := \<lambda>w csess cipher n. (5, NULL, [0, 0, 0])\<rparr>"
  let ?w1 = "log_event (GetBytes (JRef 1)) world0"
  let ?w3 = "ReleaseByteArrayElements
      (log_event (CallDecrypt 64 (Ptr [1, 2, 3]) (of_nat (length [1, 2, 3 :: byte]))) ?w1)
      (JRef 1) [0, 0, 0] JNI_ABORT"
  have h1: "GetByteArrayElements ?env world0 (JRef 1) = Inr (Ptr [1, 2, 3], ?w1)"
    by (simp add: GetByteArrayElements_def world0_def env_ok_def)
  have h2: "\<not> ExceptionCheck ?w1"
    by (simp add: ExceptionCheck_def world0_def)
  have h3: "cbox_decrypt ?env ?w1 64 (Ptr [1, 2, 3]) (of_nat (length [1, 2, 3 :: byte]))
      = (5, NULL, [0, 0, 0])"
    by simp
  have h4: "(5 :: CBoxResult) \<noteq> CBOX_SUCCESS"
    by (simp add: CBOX_SUCCESS_def)
  have h5: "jvm_new ?env ?w3 (CryptoException 5) = Succeeds"
    by (simp add: env_ok_def)
  from decrypt_failure_object [OF h1 h2 h3 refl] h4 h5
  obtain w' where r: "cboxjni_session_decrypt ?env world0 64 (JRef 1) = Inr (JNull, w')"
    and f: "failure_raised w' 5"
    by blast
  have "cboxjni_session_decrypt ?env world0 64 (JRef 1)
     = Inr (JNull,
         \<lparr>heap = [StringObj ''bob'', ByteArray [1, 2, 3], CryptoException 5],
          pending = Thrown (JRef 2),
          trace = [GetBytes (JRef 1), CallDecrypt 64 (Ptr [1, 2, 3]) 3,
                   ReleaseBytes (JRef 1) JNI_ABORT]\<rparr>)"
    by (simp add: cboxjni_session_decrypt_def jni_defs world0_def env_ok_def)
  with r f show ?thesis
    by simp
qed

section \<open>Session from message\<close>

text \<open>
  C9, as the claim states it, fails twice. The engine succeeds and the construction
  of the session wrapper raises: the conversion is still called and frees the
  plaintext buffer, but with the exception pending it returns null, and the entry
  point returns the null sentinel, so no pair with a null session is built. And when
  the wrapper comes back null with nothing pending and the conversion succeeds, the
  entry point still returns the null sentinel if the pair cannot be constructed.
\<close>

theorem init_from_message_null_session_counterexample:
  "cboxjni_new_session (env_session_fails Throws)
      \<lparr>heap = [StringObj ''bob'', ByteArray [1, 2, 3]], pending = NoException,
       trace = [GetString (JRef 0), GetBytes (JRef 1),
                CallInitFromMessage 64 (Ptr ''bob'') (Ptr [1, 2, 3]) 3,
                ReleaseBytes (JRef 1) JNI_ABORT, ReleaseString (JRef 0)]\<rparr> 64 (JRef 0)
     = (JNull,
        \<lparr>heap = [StringObj ''bob'', ByteArray [1, 2, 3]], pending = JvmException,
         trace = [GetString (JRef 0), GetBytes (JRef 1),
                  CallInitFromMessage 64 (Ptr ''bob'') (Ptr [1, 2, 3]) 3,
                  ReleaseBytes (JRef 1) JNI_ABORT, ReleaseString (JRef 0)]\<rparr>)
   \<and> cboxjni_init_from_message (env_session_fails Throws) world0 64 (JRef 0) (JRef 1)
     = Inr (JNull,
         \<lparr>heap = [StringObj ''bob'', ByteArray [1, 2, 3], ByteArray [0, 0]],
          pending = JvmException,
          trace = [GetString (JRef 0), GetBytes (JRef 1),
                   CallInitFromMessage 64 (Ptr ''bob'') (Ptr [1, 2, 3]) 3,
                   ReleaseBytes (JRef 1) JNI_ABORT, ReleaseString (JRef 0), VecFree 2]\<rparr>)
   \<and> cboxjni_vec2arr env_pair_fails
      \<lparr>heap = [StringObj ''bob'', ByteArray [1, 2, 3]], pending = NoException,
       trace = [GetString (JRef 0), GetBytes (JRef 1),
                CallInitFromMessage 64 (Ptr ''bob'') (Ptr [1, 2, 3]) 3,
                ReleaseBytes (JRef 1) JNI_ABORT, ReleaseString (JRef 0)]\<rparr>
      (Ptr \<lparr>vec_addr = 2, vec_bytes = [104, 105]\<rparr>)
     = Inr (JRef 2,
         \<lparr>heap = [StringObj ''bob'', ByteArray [1, 2, 3], ByteArray [104, 105]],
          pending = NoException,
          trace = [GetString (JRef 0), GetBytes (JRef 1),
                   CallInitFromMessage 64 (Ptr ''bob'') (Ptr [1, 2, 3]) 3,
                   ReleaseBytes (JRef 1) JNI_ABORT, ReleaseString (JRef 0), VecFree 2]\<rparr>)
   \<and> cboxjni_init_from_message env_pair_fails world0 64 (JRef 0) (JRef 1)
     = Inr (JNull,
         \<lparr>heap = [StringObj ''bob'', ByteArray [1, 2, 3], ByteArray [104, 105]],
          pending = JvmException,
          trace = [GetString (JRef 0), GetBytes (JRef 1),
                   CallInitFromMessage 64 (Ptr ''bob'') (Ptr [1, 2, 3]) 3,
                   ReleaseBytes (JRef 1) JNI_ABORT, ReleaseString (JRef 0), VecFree 2]\<rparr>)"
  by (simp add: cboxjni_init_from_message_def jni_defs world0_def env_ok_def env_session_fails_def
      env_pair_fails_def replicate_2)

text \<open>
  C9, amended. In session-from-message, after the engine has succeeded, the result of
  constructing the session wrapper is not checked before the plaintext is converted
  and the pair is built: if the construction fails, the entry point goes on exactly as
  the conversion and the construction of the pair make it, with null for the session.
  It still converts the plaintext buffer and frees it, once. When nothing is pending
  and the conversion and the construction of the pair succeed, it returns a
  session-and-plaintext pair whose session component is null. It returns the null
  sentinel when the conversion returns null, as it does whenever the failed
  construction left an exception pending (the managed array is still asked for), or
  when the pair cannot be constructed.
\<close>

theorem init_from_message_session_unchecked:
  assumes s: "GetStringUTFChars env w j_sid = Inr (Ptr s, w1)"
    and e: "\<not> ExceptionCheck w1"
    and b: "GetByteArrayElements env w1 j_message = Inr (Ptr bs, w2)"
    and c: "cbox_session_init_from_message env w2 j_ptr (Ptr s) (Ptr bs) (of_nat (length bs))
           = (CBOX_SUCCESS, sess, Ptr pb, buf)"
    and w5: "w5 = ReleaseStringUTFChars (ReleaseByteArrayElements
           (log_event (CallInitFromMessage j_ptr (Ptr s) (Ptr bs) (of_nat (length bs))) w2)
           j_message buf JNI_ABORT) j_sid"
    and n: "cboxjni_new_session env w5 sess j_sid = (JNull, w6)"
  shows "cboxjni_init_from_message env w j_ptr j_sid j_message =
          (case cboxjni_vec2arr env w6 (Ptr pb) of
             Inl f \<Rightarrow> Inl f
           | Inr (j_plaintext, w7) \<Rightarrow>
               if j_plaintext = JNull then Inr (JNull, w7)
               else Inr (NewObject env w7 (SessionMessage JNull j_plaintext)))
     \<and> (\<exists>r w'. cboxjni_init_from_message env w j_ptr j_sid j_message = Inr (r, w')
          \<and> trace w' = trace w5 @ [VecFree (vec_addr pb)]
          \<and> (r \<noteq> JNull \<longrightarrow> (\<exists>p. deref (heap w') r = Some (SessionMessage JNull p))))
     \<and> (ExceptionCheck w6 \<longrightarrow>
          cboxjni_init_from_message env w j_ptr j_sid j_message =
            Inr (JNull, log_event (VecFree (vec_addr pb))
                   (snd (NewByteArray env w6 (of_nat (length (vec_bytes pb)))))))
     \<and> (\<forall>p w7. cboxjni_vec2arr env w6 (Ptr pb) = Inr (p, w7) \<and> p \<noteq> JNull
            \<and> jvm_new env w7 (SessionMessage JNull p) = Succeeds \<longrightarrow>
          cboxjni_init_from_message env w j_ptr j_sid j_message =
            Inr (JRef (length (heap w7)), w7\<lparr>heap := heap w7 @ [SessionMessage JNull p]\<rparr>))
     \<and> (\<not> ExceptionCheck w6 \<and> length (vec_bytes pb) < 2 ^ 31
            \<and> (\<forall>w bs. jvm_new env w (ByteArray bs) = Succeeds)
            \<and> (\<forall>w r. \<not> jvm_store_throws env w r)
            \<and> (\<forall>w p. jvm_new env w (SessionMessage JNull p) = Succeeds) \<longrightarrow>
          (\<exists>w'. cboxjni_init_from_message env w j_ptr j_sid j_message =
                  Inr (JRef (Suc (length (heap w6))), w')
             \<and> heap w' = heap w6 @ [ByteArray (vec_bytes pb),
                  SessionMessage JNull (JRef (length (heap w6)))]
             \<and> trace w' = trace w5 @ [VecFree (vec_addr pb)]
             \<and> pending w' = NoException))"
proof -
  let ?E = "cboxjni_init_from_message env w j_ptr j_sid j_message"
  have eq: "?E =
          (case cboxjni_vec2arr env w6 (Ptr pb) of
             Inl f \<Rightarrow> Inl f
           | Inr (j_plaintext, w7) \<Rightarrow>
               if j_plaintext = JNull then Inr (JNull, w7)
               else Inr (NewObject env w7 (SessionMessage JNull j_plaintext)))"
    using init_from_message_unfold(1) [OF s e b c w5] n by simp
  have t6: "trace w6 = trace w5"
    using n by (rule new_session_trace)
  obtain p w7 where v7: "cboxjni_vec2arr env w6 (Ptr pb) = Inr (p, w7)"
    using vec2arr_returns [of env w6 pb] by blast
  from vec2arr_Inr [OF v7] have t7: "trace w7 = trace w5 @ [VecFree (vec_addr pb)]"
    using t6 by auto
  have ret: "\<exists>r w'. ?E = Inr (r, w')
          \<and> trace w' = trace w5 @ [VecFree (vec_addr pb)]
          \<and> (r \<noteq> JNull \<longrightarrow> (\<exists>p. deref (heap w') r = Some (SessionMessage JNull p)))"
  proof (cases "p = JNull")
    case True
    then show ?thesis
      using eq v7 t7 by simp
  next
    case False
    obtain r w' where o: "NewObject env w7 (SessionMessage JNull p) = (r, w')"
      by (cases "NewObject env w7 (SessionMessage JNull p)") auto
    have "trace w' = trace w7"
      using o by (rule NewObject_trace)
    moreover have "r \<noteq> JNull \<longrightarrow> deref (heap w') r = Some (SessionMessage JNull p)"
      using o by (auto simp: NewObject_def jvm_raise_def split: outcome.splits if_splits)
    ultimately show ?thesis
      using eq v7 False o t7 by auto
  qed
  have pend: "?E = Inr (JNull, log_event (VecFree (vec_addr pb))
                   (snd (NewByteArray env w6 (of_nat (length (vec_bytes pb))))))"
    if "ExceptionCheck w6"
    using eq vec2arr_pending [OF that, of env pb] by simp
  have pair: "?E = Inr (JRef (length (heap w7')), w7'\<lparr>heap := heap w7' @ [SessionMessage JNull p']\<rparr>)"
    if "cboxjni_vec2arr env w6 (Ptr pb) = Inr (p', w7')" "p' \<noteq> JNull"
      "jvm_new env w7' (SessionMessage JNull p') = Succeeds" for p' w7'
    using eq that by (simp add: NewObject_def)
  have pos: "\<exists>w'. ?E = Inr (JRef (Suc (length (heap w6))), w')
             \<and> heap w' = heap w6 @ [ByteArray (vec_bytes pb),
                  SessionMessage JNull (JRef (length (heap w6)))]
             \<and> trace w' = trace w5 @ [VecFree (vec_addr pb)]
             \<and> pending w' = NoException"
    if np: "\<not> ExceptionCheck w6" and len: "length (vec_bytes pb) < 2 ^ 31"
      and nb: "\<forall>w bs. jvm_new env w (ByteArray bs) = Succeeds"
      and st: "\<forall>w r. \<not> jvm_store_throws env w r"
      and nm: "\<forall>w p. jvm_new env w (SessionMessage JNull p) = Succeeds"
  proof -
    have p6: "pending w6 = NoException"
      using np by (simp add: ExceptionCheck_def)
    note v = vec2arr_succeeds_bytes [OF p6 nb st len]
    show ?thesis
      using pair [OF v] nm p6 t6 by simp
  qed
  show ?thesis
    using eq ret pend pair pos by blast
qed

theorem init_from_message_session_unchecked_witness:
  "cboxjni_init_from_message (env_session_fails ReturnsNull) world0 64 (JRef 0) (JRef 1)
     = Inr (JRef 3,
         \<lparr>heap = [StringObj ''bob'', ByteArray [1, 2, 3], ByteArray [104, 105],
                  SessionMessage JNull (JRef 2)],
          pending = NoException,
          trace = [GetString (JRef 0), GetBytes (JRef 1),
                   CallInitFromMessage 64 (Ptr ''bob'') (Ptr [1, 2, 3]) 3,
                   ReleaseBytes (JRef 1) JNI_ABORT, ReleaseString (JRef 0), VecFree 2]\<rparr>)
   \<and> deref [StringObj ''bob'', ByteArray [1, 2, 3], ByteArray [104, 105],
             SessionMessage JNull (JRef 2)] (JRef 3) = Some (SessionMessage JNull (JRef 2))"
proof -
  let ?env = "env_session_fails ReturnsNull"
  let ?w1 = "log_event (GetString (JRef 0)) world0"
  let ?w2 = "log_event (GetBytes (JRef 1)) ?w1"
  let ?w5 = "ReleaseStringUTFChars (ReleaseByteArrayElements
           (log_event (CallInitFromMessage 64 (Ptr ''bob'') (Ptr [1, 2, 3])
              (of_nat (length [1, 2, 3 :: byte]))) ?w2)
           (JRef 1) [0, 0, 0] JNI_ABORT) (JRef 0)"
  let ?pb = "\<lparr>vec_addr = 2, vec_bytes = [104, 105]\<rparr>"
  have h1: "GetStringUTFChars ?env world0 (JRef 0) = Inr (Ptr ''bob'', ?w1)"
    by (simp add: GetStringUTFChars_def world0_def env_ok_def env_session_fails_def)
  have h2: "\<not> ExceptionCheck ?w1"
    by (simp add: ExceptionCheck_def world0_def)
  have h3: "GetByteArrayElements ?env ?w1 (JRef 1) = Inr (Ptr [1, 2, 3], ?w2)"
    by (simp add: GetByteArrayElements_def world0_def env_ok_def env_session_fails_def)
  have h4: "cbox_session_init_from_message ?env ?w2 64 (Ptr ''bob'') (Ptr [1, 2, 3])
      (of_nat (length [1, 2, 3 :: byte])) = (CBOX_SUCCESS, 64, Ptr ?pb, [0, 0, 0])"
    by (simp add: env_ok_def env_session_fails_def world0_def)
  have h6: "cboxjni_new_session ?env ?w5 64 (JRef 0) = (JNull, ?w5)"
    by (simp add: cboxjni_new_session_def NewObject_def cboxjni_check_error_def
        env_ok_def env_session_fails_def)
  have ok: "\<not> ExceptionCheck ?w5 \<and> length (vec_bytes ?pb) < 2 ^ 31
      \<and> (\<forall>w bs. jvm_new ?env w (ByteArray bs) = Succeeds)
      \<and> (\<forall>w r. \<not> jvm_store_throws ?env w r)
      \<and> (\<forall>w p. jvm_new ?env w (SessionMessage JNull p) = Succeeds)"
    by (simp add: ExceptionCheck_def world0_def env_ok_def env_session_fails_def)
  from init_from_message_session_unchecked [OF h1 h2 h3 h4 refl h6] ok
  obtain w' where r: "cboxjni_init_from_message ?env world0 64 (JRef 0) (JRef 1)
        = Inr (JRef (Suc (length (heap ?w5))), w')"
    and h: "heap w' = heap ?w5 @ [ByteArray (vec_bytes ?pb),
        SessionMessage JNull (JRef (length (heap ?w5)))]"
    and t: "trace w' = trace ?w5 @ [VecFree (vec_addr ?pb)]"
    and p: "pending w' = NoException"
    by blast
  have "w' = \<lparr>heap = [StringObj ''bob'', ByteArray [1, 2, 3], ByteArray [104, 105],
                  SessionMessage JNull (JRef 2)],
          pending = NoException,
          trace = [GetString (JRef 0), GetBytes (JRef 1),
                   CallInitFromMessage 64 (Ptr ''bob'') (Ptr [1, 2, 3]) 3,
                   ReleaseBytes (JRef 1) JNI_ABORT, ReleaseString (JRef 0), VecFree 2]\<rparr>"
    using h t p by (cases w') (simp add: world0_def)
  with r show ?thesis
    by (simp add: world0_def)
qed

section \<open>Generating prekeys\<close>

text \<open>
  C4, as the claim states it, fails: the ids are computed in 32-bit arithmetic. With
  start \<open>2147483647\<close> and count \<open>2\<close>, and every step succeeding, the two bundles carry
  the ids \<open>2147483647\<close> and \<open>-2147483648\<close>: the second is not start + 1, and the ids
  are not in ascending order.
\<close>

theorem new_prekeys_ids_counterexample:
  "cboxjni_new_prekeys env_ok world0 64 2147483647 2
     = Inr (JRef 2,
         \<lparr>heap = [StringObj ''bob'', ByteArray [1, 2, 3], ObjectArray [JRef 4, JRef 6],
                  ByteArray [5, 5], PreKey 2147483647 (JRef 3),
                  ByteArray [5, 5], PreKey 2147483648 (JRef 5)],
          pending = NoException,
          trace = [CallNewPrekey 64 2147483647, VecFree 0,
                   CallNewPrekey 64 2147483648, VecFree 2]\<rparr>)
   \<and> bundle_ids
         \<lparr>heap = [StringObj ''bob'', ByteArray [1, 2, 3], ObjectArray [JRef 4, JRef 6],
                  ByteArray [5, 5], PreKey 2147483647 (JRef 3),
                  ByteArray [5, 5], PreKey 2147483648 (JRef 5)],
          pending = NoException,
          trace = [CallNewPrekey 64 2147483647, VecFree 0,
                   CallNewPrekey 64 2147483648, VecFree 2]\<rparr> (JRef 2)
     = Some [Some 2147483647, Some (- 2147483648)]
   \<and> [Some 2147483647, Some (- 2147483648)] \<noteq> [Some 2147483647, Some (2147483647 + 1 :: int)]
   \<and> \<not> sorted_wrt (<) [2147483647, - 2147483648 :: int]"
  by (simp add: cboxjni_new_prekeys_def new_prekeys_loop.simps jni_defs world0_def env_ok_def
      bundle_ids_def bundle_id_def replicate_2)

text \<open>
  C4, amended. For every store handle, start id and count \<open>\<ge> 0\<close> such that
  start + count - 1 does not exceed the largest 32-bit signed number, when the runtime
  and the engine succeed at every step, generate-prekeys returns an array of exactly
  count prekey bundles whose ids are start, start + 1, ..., start + count - 1, in
  ascending order; for count 0 the array is empty, and it is not a failure.
\<close>

theorem new_prekeys_ascending_ids:
  assumes new: "\<forall>w obj. jvm_new env w obj = Succeeds"
    and store: "\<forall>w r. \<not> jvm_store_throws env w r"
    and key: "\<forall>w j_id. \<exists>bv. cbox_new_prekey env w j_ptr j_id = (CBOX_SUCCESS, Ptr bv)
                \<and> length (vec_bytes bv) < 2 ^ 31"
    and p: "pending w = NoException"
    and num: "0 \<le> sint j_num"
    and fit: "sint j_start + sint j_num \<le> 2 ^ 31"
  shows "\<exists>r w' ids. cboxjni_new_prekeys env w j_ptr j_start j_num = Inr (JRef r, w')
     \<and> bundle_ids w' (JRef r) = Some (map Some ids)
     \<and> ids = map (\<lambda>k. sint j_start + int k) [0..<nat (sint j_num)]
     \<and> length ids = nat (sint j_num)
     \<and> sorted_wrt (<) ids
     \<and> (j_num = 0 \<longrightarrow> ids = [])"
proof -
  let ?n = "nat (sint j_num)"
  let ?ids = "map (\<lambda>k. sint j_start + int k) [0..<?n]"
  from new_prekeys_word_ids [OF new store key p num, of j_start]
  obtain r w' where r: "cboxjni_new_prekeys env w j_ptr j_start j_num = Inr (JRef r, w')"
    and b: "bundle_ids w' (JRef r) = Some (map (\<lambda>k. Some (sint (j_start + of_nat k))) [0..<?n])"
    by blast
  have "sint (j_start + of_nat k) = sint j_start + int k" if "k < ?n" for k
  proof (rule sint_add_of_nat)
    from that have "int k < sint j_num"
      by simp
    with fit show "sint j_start + int k < 2 ^ 31"
      by simp
  qed
  then have "map (\<lambda>k. Some (sint (j_start + of_nat k))) [0..<?n] = map Some ?ids"
    by simp
  with b have "bundle_ids w' (JRef r) = Some (map Some ?ids)"
    by simp
  moreover have "sorted_wrt (<) ?ids"
    by (simp add: sorted_wrt_iff_nth_less)
  ultimately show ?thesis
    using r by auto
qed

theorem new_prekeys_ascending_ids_witness:
  "\<exists>r w'. cboxjni_new_prekeys env_ok world0 64 7 2 = Inr (JRef r, w')
     \<and> bundle_ids w' (JRef r) = Some [Some 7, Some 8]"
proof -
  have new: "\<forall>w obj. jvm_new env_ok w obj = Succeeds"
    by (simp add: env_ok_def)
  have store: "\<forall>w r. \<not> jvm_store_throws env_ok w r"
    by (simp add: env_ok_def)
  have key: "\<forall>w j_id. \<exists>bv. cbox_new_prekey env_ok w 64 j_id = (CBOX_SUCCESS, Ptr bv)
      \<and> length (vec_bytes bv) < 2 ^ 31"
    by (simp add: env_ok_def)
  have p: "pending world0 = NoException"
    by (simp add: world0_def)
  have num: "0 \<le> sint (2 :: jint)"
    by simp
  have fit: "sint (7 :: jint) + sint (2 :: jint) \<le> 2 ^ 31"
    by simp
  have ids: "map (\<lambda>k. sint (7 :: jint) + int k) [0..<nat (sint (2 :: jint))] = [7, 8]"
  proof -
    have "[0..<2] = [0, Suc 0]"
      by (simp add: numeral_2_eq_2)
    then show ?thesis
      by simp
  qed
  from new_prekeys_ascending_ids [OF new store key p num fit] ids
  show ?thesis
    by auto
qed

section \<open>Initialisation of the binding cache\<close>

text \<open>
  C1. The claim does not hold of the code for the last identifier. When the lookup of
  the constructor of \<^verbatim>\<open>PreKey\<close> fails and every other lookup succeeds,
  \<open>JNI_OnLoad\<close> stores null in \<open>cboxjni_pkbundle_ctor\<close>, tests
  \<open>cboxjni_sessmsg_ctor\<close> instead, registers both tables of entry points and returns
  \<^verbatim>\<open>JNI_VERSION_1_6\<close>.
\<close>

theorem onload_pkbundle_ctor_unchecked:
  "JNI_OnLoad (load_env_no_ctor ''org/pkaboo/cryptobox/PreKey'') loader0 =
     (JNI_VERSION_1_6,
      \<lparr>cache =
         \<lparr>cboxjni_ex_class = Ptr ''org/pkaboo/cryptobox/CryptoException'',
          cboxjni_box_class = Ptr ''org/pkaboo/cryptobox/CryptoBox'',
          cboxjni_sess_class = Ptr ''org/pkaboo/cryptobox/CryptoSession'',
          cboxjni_sessmsg_class = Ptr ''org/pkaboo/cryptobox/SessionMessage'',
          cboxjni_bytearr_class = Ptr ''[B'',
          cboxjni_pkbundle_class = Ptr ''org/pkaboo/cryptobox/PreKey'',
          cboxjni_ex_ctor = Ptr (Ptr ''org/pkaboo/cryptobox/CryptoException'', ''<init>'', ''(I)V''),
          cboxjni_sess_ctor = Ptr (Ptr ''org/pkaboo/cryptobox/CryptoSession'', ''<init>'',
            ''(JLjava/lang/String;)V''),
          cboxjni_box_ctor = Ptr (Ptr ''org/pkaboo/cryptobox/CryptoBox'', ''<init>'', ''(J)V''),
          cboxjni_sessmsg_ctor = Ptr (Ptr ''org/pkaboo/cryptobox/SessionMessage'', ''<init>'',
            ''(Lorg/pkaboo/cryptobox/CryptoSession;[B)V''),
          cboxjni_pkbundle_ctor = NULL\<rparr>,
       load_pending = True,
       registered =
         [(Ptr ''org/pkaboo/cryptobox/CryptoBox'', cboxjni_box_methods),
          (Ptr ''org/pkaboo/cryptobox/CryptoSession'', cboxjni_sess_methods)]\<rparr>)"
  by (simp add: JNI_OnLoad_def cboxjni_find_class_def cboxjni_find_method_def FindClass_def
      NewGlobalRef_def GetMethodID_def RegisterNatives_def load_env_no_ctor_def
      load_env_ok_def loader0_def Let_def)

text \<open>
  The sibling paths: when any of the six classes cannot be found, or the constructor
  of any of the other four classes, the test that follows the lookup reads the global
  just stored, and \<open>JNI_OnLoad\<close> returns \<^verbatim>\<open>JNI_ERR\<close> with no entry point
  registered.
\<close>

lemma onload_other_identifiers_checked:
  "aborts_unregistered (load_env_no_class ''org/pkaboo/cryptobox/CryptoException'')
   \<and> aborts_unregistered (load_env_no_class ''org/pkaboo/cryptobox/CryptoBox'')
   \<and> aborts_unregistered (load_env_no_class ''org/pkaboo/cryptobox/CryptoSession'')
   \<and> aborts_unregistered (load_env_no_class ''org/pkaboo/cryptobox/SessionMessage'')
   \<and> aborts_unregistered (load_env_no_class ''[B'')
   \<and> aborts_unregistered (load_env_no_class ''org/pkaboo/cryptobox/PreKey'')
   \<and> aborts_unregistered (load_env_no_ctor ''org/pkaboo/cryptobox/CryptoException'')
   \<and> aborts_unregistered (load_env_no_ctor ''org/pkaboo/cryptobox/CryptoSession'')
   \<and> aborts_unregistered (load_env_no_ctor ''org/pkaboo/cryptobox/CryptoBox'')
   \<and> aborts_unregistered (load_env_no_ctor ''org/pkaboo/cryptobox/SessionMessage'')
   \<and> \<not> aborts_unregistered (load_env_no_ctor ''org/pkaboo/cryptobox/PreKey'')"
  by (simp add: aborts_unregistered_def JNI_OnLoad_def cboxjni_find_class_def
      cboxjni_find_method_def FindClass_def NewGlobalRef_def GetMethodID_def RegisterNatives_def
      load_env_no_ctor_def load_env_no_class_def load_env_ok_def loader0_def Let_def
      JNI_ERR_def JNI_VERSION_1_6_def)

end
